theory Spec2Isabelle
  imports Complex_Main
begin

section \<open>The offline crop doctor: data model\<close>

text \<open>
  A shallow embedding of \<^verbatim>\<open>ai/services/offline_crop_doctor.py\<close>.
  Python floats are modelled as exact reals, Python exceptions as values of
  \<open>error + 'a\<close>, and the objects the class \<^verbatim>\<open>OfflineCropDoctor\<close> calls into
  (OpenCV, the detector services, the file system) by what they return.
\<close>

datatype error =
    CvError            \<comment> \<open>an OpenCV call raised (\<^verbatim>\<open>cv2.error\<close>)\<close>
  | ServiceError       \<comment> \<open>a collaborating service raised\<close>
  | AttributeError     \<comment> \<open>a method was called on an attribute that is \<^verbatim>\<open>None\<close>\<close>
  | DatabaseError      \<comment> \<open>\<^verbatim>\<open>sqlite3.connect\<close>, \<^verbatim>\<open>conn.execute\<close> or \<^verbatim>\<open>json.dumps\<close> raised\<close>

text \<open>
  A decoded image, as far as the class looks at it: the pixels of
  \<^verbatim>\<open>cv2.cvtColor(image, cv2.COLOR_BGR2HSV)\<close> as (hue, saturation, value) triples,
  and the quantities OpenCV and numpy compute from the grey-scale picture.
  \<^verbatim>\<open>image.shape[0] * image.shape[1]\<close> is the number of pixels.
\<close>

record image =
  hsv :: "(nat \<times> nat \<times> nat) list"
  dominant_hue :: nat        \<comment> \<open>\<^verbatim>\<open>np.argmax(np.histogram(hsv[:,:,0], bins=180)[0])\<close>\<close>
  gray_std :: real           \<comment> \<open>\<^verbatim>\<open>np.std(gray)\<close>; \<^verbatim>\<open>np.var(gray)\<close> is its square\<close>
  canny_density :: real      \<comment> \<open>\<^verbatim>\<open>np.sum(cv2.Canny(gray, 100, 200)) / (rows * cols)\<close>\<close>
  contour_areas :: "real list"
    \<comment> \<open>\<^verbatim>\<open>cv2.contourArea(c)\<close> of every contour of the Otsu mask, in order\<close>

text \<open>A candidate of a stage: \<^verbatim>\<open>(label, confidence)\<close>.\<close>

type_synonym candidate = "string \<times> real"

record CropAnalysisResult =
  crop_type :: string
  crop_confidence :: real

record DiseaseAnalysisResult =
  disease :: string
  confidence :: real
  severity_percent :: real

text \<open>
  What \<^verbatim>\<open>EnhancedCropAnalysis.predict_disease\<close> and
  \<^verbatim>\<open>AdvancedDiseaseDetector.analyze_image\<close> return, as far as the class reads
  them. A field is \<open>None\<close> when the key is missing from the dictionary, and the
  caller's \<^verbatim>\<open>.get(key, default)\<close> supplies the default.
\<close>

record analysis =
  an_crop_type :: "string option"
  an_overall_confidence :: "real option"

record diagnosis =
  dg_primary_disease :: "string option"
  dg_confidence :: "real option"
  dg_severity_level :: "string option"

record RecommendationResult =
  fertilizer_recommendation :: string
  fertilizer_dose :: string
  pesticide_recommendation :: string
  pesticide_dose :: string

record SmartRecommendations =
  irrigation_advice :: string
  prevention_strategies :: "string list"
  growth_stage_tips :: "string list"

record YieldPredictionResult =
  predicted_yield :: real
  yield_confidence :: real

record CropDoctorInput =
  image_path :: string
  soil_type :: "string option"
  weather_data :: "(string \<times> real) list option"
  growth_stage :: "string option"
  historical_yield :: "real list option"
  location :: "(string \<times> real) list option"

text \<open>The report: the dictionary \<^verbatim>\<open>crop_analysis\<close>, a timestamp and the region.\<close>

record confidence_scores =
  cs_crop_type :: real
  cs_disease :: real
  cs_yield_prediction :: real

record crop_analysis =
  ca_crop_type :: string
  ca_disease :: string
  ca_disease_severity_percent :: real
  ca_fertilizer_recommendation :: string
  ca_fertilizer_dose :: string
  ca_pesticide_recommendation :: string
  ca_pesticide_dose :: string
  ca_irrigation_advice :: string
  ca_prevention_strategies :: "string list"
  ca_growth_stage_tips :: "string list"
  ca_predicted_yield :: real
  ca_confidence_scores :: confidence_scores
  ca_disease_overlay_image :: "string option"

record region_info =
  ri_location :: "(string \<times> real) list option"
  ri_weather_data :: "(string \<times> real) list option"
  ri_soil_type :: "string option"

record CropDoctorReport =
  report_crop_analysis :: crop_analysis
  report_timestamp :: string
  report_region_info :: "region_info option"

text \<open>
  The service attributes of an \<^verbatim>\<open>OfflineCropDoctor\<close>. An attribute is \<open>None\<close>
  when its constructor raised in \<^verbatim>\<open>_initialize_services\<close>. The crop analyzer
  and the disease detector are the method the class calls, from the image path
  to what the call returns or raises. The treatment engine and the yield
  predictor are external knowledge bases: each stands for the \<^verbatim>\<open>try\<close> block
  that calls it (lines 492-527 and 574-598), from the stage's arguments to the
  result the block builds or the exception it raises. The recommendation service
  is constructed and never called.
\<close>

record doctor =
  crop_analyzer :: "(string \<Rightarrow> error + analysis) option"
  disease_detector :: "(string \<Rightarrow> error + diagnosis) option"
  yield_predictor :: "(string \<Rightarrow> CropDoctorInput \<Rightarrow> error + YieldPredictionResult) option"
  treatment_engine ::
    "(string \<Rightarrow> string \<Rightarrow> CropDoctorInput \<Rightarrow> error + RecommendationResult) option"
  recommendation_service :: "unit option"
  loaded_models :: "nat option"
    \<comment> \<open>\<^verbatim>\<open>len(self.model_manager.loaded_models)\<close>, \<open>None\<close> without that attribute\<close>

text \<open>
  What is outside the object: the file system as OpenCV and \<^verbatim>\<open>open\<close> see it,
  the clock, the cache database's readiness to take a write, and the two
  \<^verbatim>\<open>try\<close> blocks that use no service attribute (the advice tables of lines
  542-560 and the overlay drawing of lines 614-641).
\<close>

record world =
  imread :: "string \<Rightarrow> image option"
    \<comment> \<open>\<^verbatim>\<open>cv2.imread\<close>: \<open>None\<close> for a file that is missing or cannot be decoded\<close>
  md5_of_file :: "string \<Rightarrow> string option"
    \<comment> \<open>\<^verbatim>\<open>hashlib.md5(f.read()).hexdigest()\<close>, \<open>None\<close> when \<^verbatim>\<open>open\<close> raises\<close>
  now :: string
  smart_advice :: "string \<Rightarrow> real \<Rightarrow> CropDoctorInput \<Rightarrow> error + SmartRecommendations"
  draw_overlay :: "image \<Rightarrow> string \<Rightarrow> real \<Rightarrow> error + string"
  sqlite_write :: "string \<Rightarrow> CropDoctorReport \<Rightarrow> error + unit"
    \<comment> \<open>connecting to the cache database, serialising the report and executing the
        statement, for a hash and a report: \<open>Inl\<close> when one of them raises\<close>

section \<open>Candidate generators\<close>

record crop_features =
  cf_dominant_hue :: nat
  cf_avg_saturation :: real
  cf_avg_brightness :: real
  cf_texture_variance :: real
  cf_edge_density :: real

definition np_mean :: "nat list \<Rightarrow> real" where
  "np_mean xs = real (sum_list xs) / real (length xs)"

definition extract_crop_features :: "image \<Rightarrow> error + crop_features" where
  "extract_crop_features img =
     (if hsv img = [] then Inl CvError
      else Inr \<lparr> cf_dominant_hue = dominant_hue img,
                 cf_avg_saturation = np_mean (map (\<lambda>(h, s, v). s) (hsv img)),
                 cf_avg_brightness = np_mean (map (\<lambda>(h, s, v). v) (hsv img)),
                 cf_texture_variance = gray_std img * gray_std img,
                 cf_edge_density = canny_density img \<rparr>)"

definition identify_crop_by_color :: "crop_features \<Rightarrow> candidate option" where
  "identify_crop_by_color f =
     (let hue = cf_dominant_hue f; saturation = cf_avg_saturation f;
          brightness = cf_avg_brightness f
      in if 30 \<le> hue \<and> hue \<le> 60 \<and> saturation > 100 then Some (''Rice'', 0.7)
         else if 60 \<le> hue \<and> hue \<le> 90 \<and> brightness > 150 then Some (''Wheat'', 0.6)
         else if 20 \<le> hue \<and> hue \<le> 40 \<and> saturation > 120 then Some (''Cotton'', 0.65)
         else if 80 \<le> hue \<and> hue \<le> 110 \<and> brightness > 140 then Some (''Maize'', 0.75)
         else None)"

definition identify_crop_by_shape :: "crop_features \<Rightarrow> candidate option" where
  "identify_crop_by_shape f =
     (let texture_var = cf_texture_variance f; edge_density = cf_edge_density f
      in if texture_var > 500 \<and> edge_density > 0.05 then Some (''Rice'', 0.6)
         else if texture_var < 300 \<and> edge_density < 0.03 then Some (''Wheat'', 0.55)
         else if 300 \<le> texture_var \<and> texture_var \<le> 600
                 \<and> 0.03 \<le> edge_density \<and> edge_density \<le> 0.07 then Some (''Cotton'', 0.6)
         else None)"

text \<open>
  Method 3 of \<^verbatim>\<open>_identify_crop\<close>: the crop analyzer, when there is one and its
  call does not raise (the bare \<^verbatim>\<open>except: pass\<close> drops the candidate).
\<close>

definition analyzer_candidate :: "doctor \<Rightarrow> string \<Rightarrow> candidate option" where
  "analyzer_candidate self path =
     (case crop_analyzer self of
        None \<Rightarrow> None
      | Some predict_disease \<Rightarrow>
          (case predict_disease path of
             Inl e \<Rightarrow> None
           | Inr a \<Rightarrow> Some (case_option ''Unknown'' id (an_crop_type a),
                            case_option 0.3 id (an_overall_confidence a))))"

text \<open>\<^verbatim>\<open>if result: candidates.append(result)\<close>, for each generator in turn.\<close>

definition pool :: "candidate option list \<Rightarrow> candidate list" where
  "pool rs = concat (map (case_option [] (\<lambda>c. [c])) rs)"

section \<open>The arbiter\<close>

text \<open>
  \<^verbatim>\<open>candidates.sort(key=lambda x: x[1], reverse=True)\<close>. Python's sort is stable,
  also with \<^verbatim>\<open>reverse=True\<close>: candidates of equal confidence keep the order in
  which they were appended. A stable ascending sort on the negated confidence
  is the same list.
\<close>

definition sort_by_confidence :: "candidate list \<Rightarrow> candidate list" where
  "sort_by_confidence cs = sort_key (\<lambda>c. - snd c) cs"

text \<open>Lines 341-352 of \<^verbatim>\<open>_identify_crop\<close>: select the best crop candidate.\<close>

definition select_crop :: "candidate list \<Rightarrow> candidate" where
  "select_crop crop_candidates =
     (if crop_candidates \<noteq> [] then
        (let (best_crop, best_confidence) = hd (sort_by_confidence crop_candidates)
         in if best_confidence < 0.2 then (''Unknown'', 0) else (best_crop, best_confidence))
      else (''Unknown'', 0))"

text \<open>Lines 403-414 of \<^verbatim>\<open>_detect_disease\<close>: select the best disease candidate.\<close>

definition select_disease :: "candidate list \<Rightarrow> candidate" where
  "select_disease disease_candidates =
     (if disease_candidates \<noteq> [] then
        (let (best_disease, best_confidence) = hd (sort_by_confidence disease_candidates)
         in if best_confidence < 0.3 then (''Healthy'', max best_confidence 0.8)
            else (best_disease, best_confidence))
      else (''Healthy'', 0.9))"

definition crop_candidates :: "doctor \<Rightarrow> string \<Rightarrow> crop_features \<Rightarrow> candidate list" where
  "crop_candidates self path f =
     pool [identify_crop_by_color f, identify_crop_by_shape f,
           analyzer_candidate self path]"

definition identify_crop :: "doctor \<Rightarrow> world \<Rightarrow> string \<Rightarrow> CropAnalysisResult" where
  "identify_crop self w path =
     (case imread w path of
        None \<Rightarrow> \<lparr> crop_type = ''Unknown'', crop_confidence = 0 \<rparr>
      | Some img \<Rightarrow>
          (case extract_crop_features img of
             Inl e \<Rightarrow> \<lparr> crop_type = ''Unknown'', crop_confidence = 0 \<rparr>
           | Inr f \<Rightarrow>
               (let (best_crop, best_confidence) =
                      select_crop (crop_candidates self path f)
                in \<lparr> crop_type = best_crop, crop_confidence = best_confidence \<rparr>)))"

section \<open>Disease detection\<close>

record disease_features =
  num_spots :: nat
  avg_spot_size :: real
  total_affected_area :: real
  yellow_pixels :: nat
  brown_pixels :: nat
  white_pixels :: nat
  texture_contrast :: real
  homogeneity :: real

text \<open>\<^verbatim>\<open>np.sum(mask)\<close> of a boolean mask over the pixels.\<close>

definition count_pixels :: "(nat \<times> nat \<times> nat \<Rightarrow> bool) \<Rightarrow> image \<Rightarrow> nat" where
  "count_pixels p img = length (filter p (hsv img))"

text \<open>
  \<^verbatim>\<open>_extract_disease_features\<close>. The colour conversions raise on an image
  without pixels. The number of spots is the number of contours and the affected
  area is the sum of their areas, as in the source.
\<close>

definition extract_disease_features :: "image \<Rightarrow> error + disease_features" where
  "extract_disease_features img =
     (if hsv img = [] then Inl CvError
      else
        (let contours = contour_areas img
         in Inr \<lparr> num_spots = length contours,
                    avg_spot_size =
                      (if contours \<noteq> [] then sum_list contours / real (length contours) else 0),
                    total_affected_area = sum_list contours,
                    yellow_pixels = count_pixels (\<lambda>(h, s, v). 25 \<le> h \<and> h \<le> 35) img,
                    brown_pixels = count_pixels (\<lambda>(h, s, v). 10 \<le> h \<and> h \<le> 20) img,
                    white_pixels = count_pixels (\<lambda>(h, s, v). v > 200) img,
                    texture_contrast = gray_std img,
                    homogeneity = 1 / (1 + gray_std img * gray_std img) \<rparr>))"

definition identify_disease_by_features :: "disease_features \<Rightarrow> string \<Rightarrow> candidate option" where
  "identify_disease_by_features features crop =
     (let contrast = texture_contrast features
      in if white_pixels features > 1000 \<and> contrast > 50 then Some (''Powdery Mildew'', 0.8)
         else if yellow_pixels features > 2000 \<and> num_spots features > 10
           then Some (''Early Blight'', 0.75)
         else if brown_pixels features > 1500 \<and> num_spots features > 5
           then Some (''Late Blight'', 0.85)
         else if num_spots features > 20 \<and> contrast < 30 then Some (''Bacterial Spot'', 0.7)
         else None)"

definition identify_disease_by_visual_analysis ::
  "disease_features \<Rightarrow> string \<Rightarrow> candidate option" where
  "identify_disease_by_visual_analysis features crop =
     (let affected_area = total_affected_area features
      in if affected_area > 5000 then Some (''Late Blight'', 0.8)
         else if num_spots features > 15 then Some (''Early Blight'', 0.7)
         else if affected_area > 2000 \<and> num_spots features < 10
           then Some (''Bacterial Spot'', 0.65)
         else None)"

text \<open>
  Method 1 of \<^verbatim>\<open>_detect_disease\<close>: the disease detector, when there is one and
  its call does not raise (the exception is logged and the candidate dropped).
\<close>

definition detector_candidate :: "doctor \<Rightarrow> string \<Rightarrow> candidate option" where
  "detector_candidate self path =
     (case disease_detector self of
        None \<Rightarrow> None
      | Some analyze_image \<Rightarrow>
          (case analyze_image path of
             Inl e \<Rightarrow> None
           | Inr d \<Rightarrow> Some (case_option ''Healthy'' id (dg_primary_disease d),
                            case_option 0.5 id (dg_confidence d))))"

definition disease_candidates ::
  "doctor \<Rightarrow> string \<Rightarrow> disease_features \<Rightarrow> string \<Rightarrow> candidate list" where
  "disease_candidates self path features crop =
     pool [detector_candidate self path,
           identify_disease_by_features features crop,
           identify_disease_by_visual_analysis features crop]"

definition detect_disease ::
  "doctor \<Rightarrow> world \<Rightarrow> string \<Rightarrow> string \<Rightarrow> DiseaseAnalysisResult" where
  "detect_disease self w path crop =
     (case imread w path of
        None \<Rightarrow> \<lparr> disease = ''Unknown'', confidence = 0, severity_percent = 0 \<rparr>
      | Some img \<Rightarrow>
          (case extract_disease_features img of
             Inl e \<Rightarrow> \<lparr> disease = ''Unknown'', confidence = 0, severity_percent = 0 \<rparr>
           | Inr features \<Rightarrow>
               (let (best_disease, best_confidence) =
                      select_disease (disease_candidates self path features crop)
                in \<lparr> disease = best_disease, confidence = best_confidence,
                     severity_percent = 0 \<rparr>)))"

section \<open>The severity estimator\<close>

text \<open>\<^verbatim>\<open>severity_map.get(severity_level, 50.0)\<close>.\<close>

definition severity_map :: "string \<Rightarrow> real" where
  "severity_map severity_level =
     (if severity_level = ''mild'' then 25
      else if severity_level = ''moderate'' then 50
      else if severity_level = ''severe'' then 75
      else if severity_level = ''epidemic'' then 95
      else 50)"

text \<open>Method 1: the detector's severity level; nothing when it is absent or raises.\<close>

definition detector_scores :: "doctor \<Rightarrow> string \<Rightarrow> real list" where
  "detector_scores self path =
     (case disease_detector self of
        None \<Rightarrow> []
      | Some analyze_image \<Rightarrow>
          (case analyze_image path of
             Inl e \<Rightarrow> []
           | Inr d \<Rightarrow> [severity_map (case_option ''moderate'' id (dg_severity_level d))]))"

definition calculate_severity_from_features :: "disease_features \<Rightarrow> string \<Rightarrow> real" where
  "calculate_severity_from_features features d =
     (let affected_area = total_affected_area features;
          contrast = texture_contrast features;
          area_severity = min 100 ((affected_area / 10000) * 100);
          spot_severity = min 100 (real (num_spots features * 3));
          texture_severity = min 100 ((contrast / 50) * 100)
      in area_severity * 0.5 + spot_severity * 0.3 + texture_severity * 0.2)"

text \<open>
  \<^verbatim>\<open>_calculate_visual_severity\<close>: the share of pixels that match the rule of
  the disease, doubled and capped at 100. The colour conversion raises on an image
  without pixels, so the division below is never by zero.
\<close>

definition calculate_visual_severity :: "image \<Rightarrow> string \<Rightarrow> error + real" where
  "calculate_visual_severity img d =
     (if hsv img = [] then Inl CvError
      else
        (let total_pixels = length (hsv img);
             disease_pixels =
               (if d = ''Powdery Mildew'' then count_pixels (\<lambda>(h, s, v). v > 180) img
                else if d \<in> set [''Early Blight'', ''Late Blight'']
                  then count_pixels (\<lambda>(h, s, v). 10 \<le> h \<and> h \<le> 35 \<and> s > 50) img
                else if d = ''Bacterial Spot'' then count_pixels (\<lambda>(h, s, v). v < 80) img
                else 0);
             severity = (real disease_pixels / real total_pixels) * 100
         in Inr (min 100 (severity * 2))))"

definition adjustments :: "string \<Rightarrow> real option" where
  "adjustments d =
     (if d = ''Powdery Mildew'' then Some 1.2
      else if d = ''Early Blight'' then Some 1.0
      else if d = ''Late Blight'' then Some 1.3
      else if d = ''Bacterial Spot'' then Some 0.9
      else if d = ''Healthy'' then Some 0.0
      else None)"

definition adjust_severity_by_disease :: "real \<Rightarrow> string \<Rightarrow> real" where
  "adjust_severity_by_disease severity d =
     (let multiplier = case_option 1.0 id (adjustments d) in severity * multiplier)"

text \<open>\<^verbatim>\<open>if score > 0: severity_scores.append(score)\<close>.\<close>

definition positive_score :: "real \<Rightarrow> real list" where
  "positive_score s = (if s > 0 then [s] else [])"

text \<open>
  Lines 441-463 of \<^verbatim>\<open>_assess_severity\<close>: the list of severity signals, or the
  exception raised while gathering them.
\<close>

definition severity_scores ::
  "doctor \<Rightarrow> string \<Rightarrow> image \<Rightarrow> disease_features \<Rightarrow> string \<Rightarrow> error + real list" where
  "severity_scores self path img features d =
     (case calculate_visual_severity img d of
        Inl e \<Rightarrow> Inl e
      | Inr visual_severity \<Rightarrow>
          Inr (detector_scores self path
               @ positive_score (calculate_severity_from_features features d)
               @ positive_score visual_severity))"

text \<open>Lines 465-475: average, disease-specific adjustment, default and bounds.\<close>

definition final_severity :: "real list \<Rightarrow> string \<Rightarrow> real" where
  "final_severity scores d =
     (let s = (if scores \<noteq> []
               then adjust_severity_by_disease (sum_list scores / real (length scores)) d
               else 50)
      in max 5 (min 100 s))"

definition assess_severity ::
  "doctor \<Rightarrow> world \<Rightarrow> string \<Rightarrow> string \<Rightarrow> DiseaseAnalysisResult" where
  "assess_severity self w path d =
     (case imread w path of
        None \<Rightarrow> \<lparr> disease = d, confidence = 0, severity_percent = 50 \<rparr>
      | Some img \<Rightarrow>
          (case extract_disease_features img of
             Inl e \<Rightarrow> \<lparr> disease = d, confidence = 0, severity_percent = 50 \<rparr>
           | Inr features \<Rightarrow>
               (case severity_scores self path img features d of
                  Inl e \<Rightarrow> \<lparr> disease = d, confidence = 0, severity_percent = 50 \<rparr>
                | Inr scores \<Rightarrow>
                    \<lparr> disease = d, confidence = 0.85,
                      severity_percent = final_severity scores d \<rparr>)))"

section \<open>Stages 4 to 7\<close>

text \<open>
  Each stage is a \<^verbatim>\<open>try\<close> block and a handler that returns a fixed default.
  A service attribute that is \<open>None\<close> raises inside the block, at the first
  method call on it.
\<close>

definition get_recommendations ::
  "doctor \<Rightarrow> string \<Rightarrow> string \<Rightarrow> CropDoctorInput \<Rightarrow> RecommendationResult" where
  "get_recommendations self crop d input_data =
     (case (case treatment_engine self of
              None \<Rightarrow> Inl AttributeError
            | Some engine \<Rightarrow> engine crop d input_data) of
        Inr result \<Rightarrow> result
      | Inl e \<Rightarrow> \<lparr> fertilizer_recommendation = ''Standard fertilizer'',
                    fertilizer_dose = ''50 kg/acre'',
                    pesticide_recommendation = ''No treatment needed'',
                    pesticide_dose = ''0'' \<rparr>)"

definition get_smart_recommendations ::
  "world \<Rightarrow> string \<Rightarrow> real \<Rightarrow> CropDoctorInput \<Rightarrow> SmartRecommendations" where
  "get_smart_recommendations w d severity input_data =
     (case smart_advice w d severity input_data of
        Inr result \<Rightarrow> result
      | Inl e \<Rightarrow> \<lparr> irrigation_advice = ''Maintain regular irrigation schedule'',
                    prevention_strategies = [''Regular field monitoring'', ''Proper sanitation''],
                    growth_stage_tips = [''Follow standard cultivation practices''] \<rparr>)"

definition predict_yield :: "doctor \<Rightarrow> string \<Rightarrow> CropDoctorInput \<Rightarrow> YieldPredictionResult" where
  "predict_yield self crop input_data =
     (case (case yield_predictor self of
              None \<Rightarrow> Inl AttributeError
            | Some predictor \<Rightarrow> predictor crop input_data) of
        Inr result \<Rightarrow> result
      | Inl e \<Rightarrow> \<lparr> predicted_yield = 0, yield_confidence = 0 \<rparr>)"

text \<open>
  \<^verbatim>\<open>_generate_visual_overlay\<close> returns the path of the overlay file, and
  \<^verbatim>\<open>None\<close> when the image cannot be read or the drawing raises.
\<close>

definition generate_visual_overlay :: "world \<Rightarrow> string \<Rightarrow> string \<Rightarrow> real \<Rightarrow> string option" where
  "generate_visual_overlay w path d severity =
     (case imread w path of
        None \<Rightarrow> None
      | Some img \<Rightarrow>
          (case draw_overlay w img d severity of
             Inl e \<Rightarrow> None
           | Inr overlay_path \<Rightarrow> Some overlay_path))"

section \<open>Stage 8: the report and the cache\<close>

text \<open>Python's truth value of an optional dictionary: \<^verbatim>\<open>None\<close> and \<^verbatim>\<open>{}\<close> are false.\<close>

definition truthy :: "'a list option \<Rightarrow> bool" where
  "truthy x = (case x of None \<Rightarrow> False | Some kvs \<Rightarrow> kvs \<noteq> [])"

definition generate_comprehensive_report ::
  "world \<Rightarrow> CropAnalysisResult \<Rightarrow> DiseaseAnalysisResult \<Rightarrow> DiseaseAnalysisResult \<Rightarrow>
   RecommendationResult \<Rightarrow> SmartRecommendations \<Rightarrow> YieldPredictionResult \<Rightarrow> string option \<Rightarrow>
   CropDoctorInput \<Rightarrow> CropDoctorReport" where
  "generate_comprehensive_report w crop_result disease_result severity_result
       recommendation_result smart_recommendations yield_result overlay_path input_data =
     \<lparr> report_crop_analysis =
         \<lparr> ca_crop_type = crop_type crop_result,
           ca_disease = disease disease_result,
           ca_disease_severity_percent = severity_percent severity_result,
           ca_fertilizer_recommendation = fertilizer_recommendation recommendation_result,
           ca_fertilizer_dose = fertilizer_dose recommendation_result,
           ca_pesticide_recommendation = pesticide_recommendation recommendation_result,
           ca_pesticide_dose = pesticide_dose recommendation_result,
           ca_irrigation_advice = irrigation_advice smart_recommendations,
           ca_prevention_strategies = prevention_strategies smart_recommendations,
           ca_growth_stage_tips = growth_stage_tips smart_recommendations,
           ca_predicted_yield = predicted_yield yield_result,
           ca_confidence_scores =
             \<lparr> cs_crop_type = crop_confidence crop_result,
               cs_disease = confidence disease_result,
               cs_yield_prediction = yield_confidence yield_result \<rparr>,
           ca_disease_overlay_image = overlay_path \<rparr>,
       report_timestamp = now w,
       report_region_info =
         (if truthy (location input_data) \<or> truthy (weather_data input_data)
          then Some \<lparr> ri_location = location input_data,
                      ri_weather_data = weather_data input_data,
                      ri_soil_type = soil_type input_data \<rparr>
          else None) \<rparr>"

text \<open>
  The table \<^verbatim>\<open>analysis_cache\<close>: \<^verbatim>\<open>id INTEGER PRIMARY KEY AUTOINCREMENT\<close>,
  \<^verbatim>\<open>image_hash TEXT UNIQUE\<close> and five more columns. The column
  \<^verbatim>\<open>recommendations\<close> holds \<^verbatim>\<open>json.dumps(report.crop_analysis)\<close>; the model
  keeps the dictionary that is serialised. The database remembers the largest
  id it has ever given out (SQLite's \<^verbatim>\<open>sqlite_sequence\<close>).
\<close>

record cache_row =
  row_id :: nat
  image_hash :: string
  row_crop_type :: string
  row_disease :: string
  row_severity :: real
  row_recommendations :: crop_analysis
  row_timestamp :: string

record cache_db =
  analysis_cache :: "cache_row list"
  sqlite_sequence :: nat

text \<open>
  \<^verbatim>\<open>INSERT OR REPLACE\<close> with the six columns named in the statement: every row
  that conflicts on the unique \<^verbatim>\<open>image_hash\<close> is deleted, and the new row is
  appended under a fresh id, one more than the largest id ever used.
\<close>

definition insert_or_replace ::
  "cache_db \<Rightarrow> string \<Rightarrow> string \<Rightarrow> string \<Rightarrow> real \<Rightarrow> crop_analysis \<Rightarrow> string \<Rightarrow> cache_db" where
  "insert_or_replace db h crop d sev recs ts =
     (let new_id = Suc (sqlite_sequence db)
      in \<lparr> analysis_cache =
             filter (\<lambda>r. image_hash r \<noteq> h) (analysis_cache db)
             @ [\<lparr> row_id = new_id, image_hash = h, row_crop_type = crop, row_disease = d,
                  row_severity = sev, row_recommendations = recs, row_timestamp = ts \<rparr>],
           sqlite_sequence = new_id \<rparr>)"

text \<open>
  \<^verbatim>\<open>_cache_analysis_results\<close>: one \<^verbatim>\<open>try\<close> block around reading and hashing
  the file, connecting to the database, serialising the report and executing
  the statement. Whichever of them raises, the exception is logged, the
  transaction is not committed and the table is left as it is.
\<close>

definition cache_analysis_results :: "world \<Rightarrow> cache_db \<Rightarrow> string \<Rightarrow> CropDoctorReport \<Rightarrow> cache_db" where
  "cache_analysis_results w db path report =
     (case md5_of_file w path of
        None \<Rightarrow> db
      | Some h \<Rightarrow>
          (case sqlite_write w h report of
             Inl e \<Rightarrow> db
           | Inr written \<Rightarrow>
               insert_or_replace db h
                 (ca_crop_type (report_crop_analysis report))
                 (ca_disease (report_crop_analysis report))
                 (ca_disease_severity_percent (report_crop_analysis report))
                 (report_crop_analysis report)
                 (report_timestamp report)))"

text \<open>
  What a reader of the table sees of a row apart from its \<^verbatim>\<open>id\<close>: the six
  columns that the \<^verbatim>\<open>INSERT OR REPLACE\<close> statement writes.
\<close>

definition cache_entry ::
  "cache_row \<Rightarrow> string \<times> string \<times> string \<times> real \<times> crop_analysis \<times> string" where
  "cache_entry r =
     (image_hash r, row_crop_type r, row_disease r, row_severity r, row_recommendations r,
      row_timestamp r)"

section \<open>The pipeline\<close>

text \<open>
  \<^verbatim>\<open>analyze_crop\<close> returns the report and leaves the database updated. Its
  handler re-raises whatever the eight stages raise; every stage up to the
  seventh and the cache write catch their own exceptions.
\<close>

definition analyze_crop ::
  "doctor \<Rightarrow> world \<Rightarrow> cache_db \<Rightarrow> CropDoctorInput \<Rightarrow> error + CropDoctorReport \<times> cache_db" where
  "analyze_crop self w db input_data =
     (let crop_result = identify_crop self w (image_path input_data);
          disease_result = detect_disease self w (image_path input_data) (crop_type crop_result);
          severity_result = assess_severity self w (image_path input_data) (disease disease_result);
          recommendation_result =
            get_recommendations self (crop_type crop_result) (disease disease_result) input_data;
          smart_recommendations =
            get_smart_recommendations w (disease disease_result)
              (severity_percent severity_result) input_data;
          yield_result = predict_yield self (crop_type crop_result) input_data;
          overlay_path =
            generate_visual_overlay w (image_path input_data) (disease disease_result)
              (severity_percent severity_result);
          report =
            generate_comprehensive_report w crop_result disease_result severity_result
              recommendation_result smart_recommendations yield_result overlay_path input_data
      in Inr (report, cache_analysis_results w db (image_path input_data) report))"

section \<open>Initialisation and health\<close>

text \<open>
  \<^verbatim>\<open>_initialize_services\<close>, from what each constructor returns or raises. Only
  a failure of \<^verbatim>\<open>ModelManager()\<close> is raised again; a failure of one of the five
  services leaves its attribute \<^verbatim>\<open>None\<close>.
\<close>

definition attribute :: "error + 'a \<Rightarrow> 'a option" where
  "attribute constructed = (case constructed of Inl e \<Rightarrow> None | Inr service \<Rightarrow> Some service)"

definition initialize_services ::
  "error + nat option \<Rightarrow>
   error + (string \<Rightarrow> error + analysis) \<Rightarrow>
   error + (string \<Rightarrow> error + diagnosis) \<Rightarrow>
   error + (string \<Rightarrow> CropDoctorInput \<Rightarrow> error + YieldPredictionResult) \<Rightarrow>
   error + (string \<Rightarrow> string \<Rightarrow> CropDoctorInput \<Rightarrow> error + RecommendationResult) \<Rightarrow>
   error + unit \<Rightarrow> error + doctor" where
  "initialize_services model_manager analyzer detector predictor engine service =
     (case model_manager of
        Inl e \<Rightarrow> Inl e
      | Inr models \<Rightarrow>
          Inr \<lparr> crop_analyzer = attribute analyzer,
                disease_detector = attribute detector,
                yield_predictor = attribute predictor,
                treatment_engine = attribute engine,
                recommendation_service = attribute service,
                loaded_models = models \<rparr>)"

record services_status =
  st_crop_analysis :: string
  st_disease_detection :: string
  st_yield_prediction :: string
  st_treatment_engine :: string
  st_recommendation_service :: string

record health_status =
  status :: string
  services :: services_status
  database :: string
  models_loaded :: nat
  health_timestamp :: string

definition get_health_status :: "doctor \<Rightarrow> world \<Rightarrow> health_status" where
  "get_health_status self w =
     \<lparr> status = ''healthy'',
       services =
         \<lparr> st_crop_analysis = ''operational'',
           st_disease_detection = ''operational'',
           st_yield_prediction = ''operational'',
           st_treatment_engine = ''operational'',
           st_recommendation_service = ''operational'' \<rparr>,
       database = ''connected'',
       models_loaded = (case loaded_models self of None \<Rightarrow> 0 | Some n \<Rightarrow> n),
       health_timestamp = now w \<rparr>"

section \<open>Concrete requests\<close>

text \<open>
  A two-pixel leaf photograph with two contours, a uniform one-pixel picture
  without contours, a file that is no image, a second world in which the
  overlay drawing and the cache write raise,
  a doctor whose five services were all constructed and one that has none.
\<close>

definition leaf_image :: image where
  "leaf_image =
     \<lparr> hsv = [(40, 150, 100), (15, 60, 90)], dominant_hue = 40, gray_std = 20,
       canny_density = 0.1, contour_areas = [6000, 300] \<rparr>"

definition blank_image :: image where
  "blank_image =
     \<lparr> hsv = [(0, 0, 0)], dominant_hue = 0, gray_std = 0, canny_density = 0,
       contour_areas = [] \<rparr>"

definition sample_world :: world where
  "sample_world =
     \<lparr> imread =
         (\<lambda>p. if p = ''leaf.jpg'' then Some leaf_image
              else if p = ''blank.jpg'' then Some blank_image
              else None),
       md5_of_file =
         (\<lambda>p. if p = ''leaf.jpg'' then Some ''0cc175b9c0f1b6a831c399e269772661''
              else if p = ''blank.jpg'' then Some ''4a8a08f09d37b73795649038408b5f33''
              else if p = ''notes.txt'' then Some ''92eb5ffee6ae2fec3ad71c777531578f''
              else None),
       now = ''2024-01-01 00:00:00'',
       smart_advice = (\<lambda>d severity input_data. Inl ServiceError),
       draw_overlay =
         (\<lambda>img d severity. Inr ''temp/disease_overlay_20240101_000000.jpg''),
       sqlite_write = (\<lambda>h report. Inr ()) \<rparr>"

definition failing_world :: world where
  "failing_world =
     sample_world
       \<lparr> draw_overlay := (\<lambda>img d severity. Inl CvError),
         sqlite_write := (\<lambda>h report. Inl DatabaseError) \<rparr>"

definition sample_doctor :: doctor where
  "sample_doctor =
     \<lparr> crop_analyzer =
         Some (\<lambda>p. Inr \<lparr> an_crop_type = Some ''Wheat'', an_overall_confidence = Some 0.7 \<rparr>),
       disease_detector =
         Some (\<lambda>p. Inr \<lparr> dg_primary_disease = Some ''Early Blight'', dg_confidence = Some 0.8,
                          dg_severity_level = Some ''severe'' \<rparr>),
       yield_predictor =
         Some (\<lambda>crop input_data. Inr \<lparr> predicted_yield = 2.5, yield_confidence = 0.6 \<rparr>),
       treatment_engine = Some (\<lambda>crop d input_data. Inl ServiceError),
       recommendation_service = Some (),
       loaded_models = Some 0 \<rparr>"

definition bare_doctor :: doctor where
  "bare_doctor =
     \<lparr> crop_analyzer = None, disease_detector = None, yield_predictor = None,
       treatment_engine = None, recommendation_service = None, loaded_models = None \<rparr>"

definition sample_input :: "string \<Rightarrow> CropDoctorInput" where
  "sample_input p =
     \<lparr> image_path = p, soil_type = None, weather_data = None, growth_stage = None,
       historical_yield = None, location = None \<rparr>"

definition empty_db :: cache_db where
  "empty_db = \<lparr> analysis_cache = [], sqlite_sequence = 0 \<rparr>"

section \<open>The arbiter: the primary candidate\<close>

lemma sort_by_confidence_nonempty: "cs \<noteq> [] \<Longrightarrow> sort_by_confidence cs \<noteq> []"
  by (metis length_0_conv length_sort sort_by_confidence_def)

lemma hd_sort_by_confidence_mem:
  "cs \<noteq> [] \<Longrightarrow> hd (sort_by_confidence cs) \<in> set cs"
  using hd_in_set [OF sort_by_confidence_nonempty, of cs]
  by (simp add: sort_by_confidence_def)

lemma hd_sort_by_confidence_max:
  assumes "c \<in> set cs"
  shows "snd c \<le> snd (hd (sort_by_confidence cs))"
proof -
  let ?s = "sort_by_confidence cs"
  have s: "sorted (map (\<lambda>c. - snd c) ?s)"
    by (simp add: sort_by_confidence_def)
  have mem: "c \<in> set ?s" using assms by (simp add: sort_by_confidence_def)
  then obtain x xs where eq: "?s = x # xs" by (cases ?s) auto
  with s mem have "- snd x \<le> - snd c" by auto
  with eq show ?thesis by simp
qed

text \<open>
  A candidate that beats everything appended before it and is not beaten by
  anything appended after it comes first after sorting: the sort is stable.
\<close>

lemma hd_sort_by_confidence_first:
  assumes "\<forall>x \<in> set pre. snd x < snd c" and "\<forall>x \<in> set post. snd x \<le> snd c"
  shows "hd (sort_by_confidence (pre @ c # post)) = c"
proof -
  let ?cs = "pre @ c # post"
  let ?s = "sort_by_confidence ?cs"
  let ?h = "hd ?s"
  have ne: "?s \<noteq> []" by (rule sort_by_confidence_nonempty) simp
  have "snd c \<le> snd ?h" by (rule hd_sort_by_confidence_max) simp
  moreover have "?h \<in> set ?cs" by (rule hd_sort_by_confidence_mem) simp
  ultimately have k: "snd ?h = snd c" using assms by auto
  have "filter (\<lambda>y. - snd y = - snd c) ?s = filter (\<lambda>y. - snd y = - snd c) ?cs"
    unfolding sort_by_confidence_def by (rule sort_key_stable)
  moreover have "filter (\<lambda>y. - snd y = - snd c) ?cs = c # filter (\<lambda>y. - snd y = - snd c) post"
    using assms(1) by (induction pre) auto
  moreover have "filter (\<lambda>y. - snd y = - snd c) ?s = ?h # filter (\<lambda>y. - snd y = - snd c) (tl ?s)"
    using ne k by (cases ?s) auto
  ultimately show ?thesis by simp
qed

lemma hd_sort_by_confidence_first_top:
  assumes "cs \<noteq> []"
  shows "hd (sort_by_confidence cs) = hd (filter (\<lambda>c. \<forall>x \<in> set cs. snd x \<le> snd c) cs)"
proof -
  let ?top = "\<lambda>c. \<forall>x \<in> set cs. snd x \<le> snd c"
  let ?h = "hd (sort_by_confidence cs)"
  have h_mem: "?h \<in> set cs" using assms by (rule hd_sort_by_confidence_mem)
  have h_top: "?top ?h" by (simp add: hd_sort_by_confidence_max)
  from h_mem h_top have "filter ?top cs \<noteq> []" by (auto simp: filter_empty_conv)
  then obtain c rest where f: "filter ?top cs = c # rest" by (cases "filter ?top cs") auto
  then obtain pre post where split: "cs = pre @ c # post" and pre: "\<forall>x \<in> set pre. \<not> ?top x"
    and c: "?top c"
    by (auto simp: filter_eq_Cons_iff)
  have "\<forall>x \<in> set pre. snd x < snd c"
  proof
    fix x assume x: "x \<in> set pre"
    with pre obtain y where "y \<in> set cs" "\<not> snd y \<le> snd x" by auto
    with c show "snd x < snd c" by force
  qed
  moreover have "\<forall>x \<in> set post. snd x \<le> snd c" using c split by auto
  ultimately have "hd (sort_by_confidence (pre @ c # post)) = c"
    by (rule hd_sort_by_confidence_first)
  with split f show ?thesis by simp
qed

lemma select_disease_below_floor:
  assumes "cs \<noteq> []" and "\<forall>c \<in> set cs. snd c < 0.3"
  shows "select_disease cs = (''Healthy'', 0.8)"
proof -
  obtain l k where h: "hd (sort_by_confidence cs) = (l, k)" by (cases "hd (sort_by_confidence cs)")
  have "(l, k) \<in> set cs" using hd_sort_by_confidence_mem [OF assms(1)] h by simp
  with assms(2) have "k < 0.3" by auto
  with assms(1) h show ?thesis by (simp add: select_disease_def)
qed

lemma select_crop_below_floor:
  assumes "cs \<noteq> []" and "\<forall>c \<in> set cs. snd c < 0.2"
  shows "select_crop cs = (''Unknown'', 0)"
proof -
  obtain l k where h: "hd (sort_by_confidence cs) = (l, k)" by (cases "hd (sort_by_confidence cs)")
  have "(l, k) \<in> set cs" using hd_sort_by_confidence_mem [OF assms(1)] h by simp
  with assms(2) have "k < 0.2" by auto
  with assms(1) h show ?thesis by (simp add: select_crop_def)
qed

text \<open>
  Claim C2, as stated: below the floor of its stage the arbiter returns the
  fallback label with the confidence raised to the larger of the primary's
  confidence and 0.8. The crop stage does not: a pool holding only a candidate
  of confidence 0.1, below the floor 0.2, gives \<^verbatim>\<open>Unknown\<close> with confidence 0,
  which is neither \<open>max 0.1 0.8\<close> nor at least 0.8.
\<close>

theorem C2_crop_floor_counterexample:
  "select_crop [(''Tomato'', 0.1)] = (''Unknown'', 0)
   \<and> snd (select_crop [(''Tomato'', 0.1)]) \<noteq> max 0.1 0.8
   \<and> \<not> 0.8 \<le> snd (select_crop [(''Tomato'', 0.1)])"
  by (simp add: select_crop_def sort_by_confidence_def)

text \<open>
  Claim C2, amended: for a pool that is not empty and whose confidences are all
  below the floor of the stage, the disease stage (floor 0.3) returns
  \<^verbatim>\<open>Healthy\<close> with the confidence raised to the larger of the primary's
  confidence and 0.8, which is 0.8, and the crop stage (floor 0.2) returns
  \<^verbatim>\<open>Unknown\<close> with confidence 0.
\<close>

theorem C2_floor_fallback:
  assumes "cs \<noteq> []"
  shows "((\<forall>c \<in> set cs. snd c < 0.3) \<longrightarrow>
            select_disease cs = (''Healthy'', max (snd (hd (sort_by_confidence cs))) 0.8)
            \<and> snd (select_disease cs) = 0.8)
       \<and> ((\<forall>c \<in> set cs. snd c < 0.2) \<longrightarrow> select_crop cs = (''Unknown'', 0))"
proof (intro conjI impI)
  assume low: "\<forall>c \<in> set cs. snd c < 0.3"
  have "hd (sort_by_confidence cs) \<in> set cs" using assms by (rule hd_sort_by_confidence_mem)
  with low have "snd (hd (sort_by_confidence cs)) < 0.3" by blast
  then have "max (snd (hd (sort_by_confidence cs))) 0.8 = 0.8" by simp
  with select_disease_below_floor [OF assms low]
  show "select_disease cs = (''Healthy'', max (snd (hd (sort_by_confidence cs))) 0.8)" by simp
  from select_disease_below_floor [OF assms low] show "snd (select_disease cs) = 0.8" by simp
next
  assume "\<forall>c \<in> set cs. snd c < 0.2"
  with assms show "select_crop cs = (''Unknown'', 0)" by (rule select_crop_below_floor)
qed

theorem C2_floor_fallback_witness:
  "[(''Tomato'', 0.1 :: real)] \<noteq> []
   \<and> list_all (\<lambda>c. snd c < 0.3) [(''Tomato'', 0.1 :: real)]
   \<and> list_all (\<lambda>c. snd c < 0.2) [(''Tomato'', 0.1 :: real)]
   \<and> select_disease [(''Tomato'', 0.1)] = (''Healthy'', 0.8)
   \<and> select_crop [(''Tomato'', 0.1)] = (''Unknown'', 0)"
  using C2_floor_fallback [of "[(''Tomato'', 0.1)]"] by (simp add: sort_by_confidence_def)

section \<open>The sample photograph, evaluated\<close>

lemma leaf_crop_features:
  "extract_crop_features leaf_image =
     Inr \<lparr> cf_dominant_hue = 40, cf_avg_saturation = 105, cf_avg_brightness = 95,
           cf_texture_variance = 400, cf_edge_density = 0.1 \<rparr>"
  by (simp add: extract_crop_features_def leaf_image_def np_mean_def)

lemma leaf_disease_features:
  "extract_disease_features leaf_image =
     Inr \<lparr> num_spots = 2, avg_spot_size = 3150, total_affected_area = 6300,
           yellow_pixels = 0, brown_pixels = 1, white_pixels = 0,
           texture_contrast = 20, homogeneity = 1 / 401 \<rparr>"
  by (simp add: extract_disease_features_def leaf_image_def count_pixels_def)

lemma leaf_crop_candidates:
  "crop_candidates sample_doctor ''leaf.jpg''
     \<lparr> cf_dominant_hue = 40, cf_avg_saturation = 105, cf_avg_brightness = 95,
       cf_texture_variance = 400, cf_edge_density = 0.1 \<rparr>
   = [(''Rice'', 0.7), (''Wheat'', 0.7)]"
  by (simp add: crop_candidates_def pool_def identify_crop_by_color_def
      identify_crop_by_shape_def analyzer_candidate_def sample_doctor_def)

lemma leaf_disease_candidates:
  "disease_candidates sample_doctor ''leaf.jpg''
     \<lparr> num_spots = 2, avg_spot_size = 3150, total_affected_area = 6300,
       yellow_pixels = 0, brown_pixels = 1, white_pixels = 0,
       texture_contrast = 20, homogeneity = 1 / 401 \<rparr> crop
   = [(''Early Blight'', 0.8), (''Late Blight'', 0.8)]"
  by (simp add: disease_candidates_def pool_def identify_disease_by_features_def
      identify_disease_by_visual_analysis_def detector_candidate_def sample_doctor_def)

section \<open>The arbiter: ties\<close>

text \<open>
  Claim C6, as stated: among candidates that share the highest confidence the
  primary comes from the model-based generator before the feature heuristic
  before the visual heuristic, at both stages. At the crop stage it does not:
  on the sample photograph the colour heuristic proposes rice and the crop
  analyzer, the model-based generator, proposes wheat, both with confidence
  0.7, and the stage returns rice.
\<close>

theorem C6_crop_tie_counterexample:
  "identify_crop_by_color (projr (extract_crop_features leaf_image)) = Some (''Rice'', 0.7)
   \<and> analyzer_candidate sample_doctor ''leaf.jpg'' = Some (''Wheat'', 0.7)
   \<and> identify_crop sample_doctor sample_world ''leaf.jpg''
       = \<lparr> crop_type = ''Rice'', crop_confidence = 0.7 \<rparr>"
proof (intro conjI)
  show "identify_crop_by_color (projr (extract_crop_features leaf_image)) = Some (''Rice'', 0.7)"
    by (simp add: leaf_crop_features identify_crop_by_color_def)
  show "analyzer_candidate sample_doctor ''leaf.jpg'' = Some (''Wheat'', 0.7)"
    by (simp add: analyzer_candidate_def sample_doctor_def)
  show "identify_crop sample_doctor sample_world ''leaf.jpg''
       = \<lparr> crop_type = ''Rice'', crop_confidence = 0.7 \<rparr>"
    by (simp add: identify_crop_def sample_world_def leaf_crop_features leaf_crop_candidates
        select_crop_def sort_by_confidence_def)
qed

lemma select_disease_primary:
  assumes "cs \<noteq> []" and "0.3 \<le> snd (hd (sort_by_confidence cs))"
  shows "select_disease cs = hd (sort_by_confidence cs)"
  using assms by (simp add: select_disease_def split_beta)

lemma select_crop_primary:
  assumes "cs \<noteq> []" and "0.2 \<le> snd (hd (sort_by_confidence cs))"
  shows "select_crop cs = hd (sort_by_confidence cs)"
  using assms by (simp add: select_crop_def split_beta)

lemma detect_disease_primary:
  assumes "imread w path = Some img" and "extract_disease_features img = Inr features"
    and "disease_candidates self path features crop \<noteq> []"
    and "hd (sort_by_confidence (disease_candidates self path features crop)) = c"
    and "0.3 \<le> snd c"
  shows "detect_disease self w path crop
         = \<lparr> disease = fst c, confidence = snd c, severity_percent = 0 \<rparr>"
  using assms select_disease_primary [of "disease_candidates self path features crop"]
  by (simp add: detect_disease_def split_beta)

lemma identify_crop_primary:
  assumes "imread w path = Some img" and "extract_crop_features img = Inr f"
    and "crop_candidates self path f \<noteq> []"
    and "hd (sort_by_confidence (crop_candidates self path f)) = c"
    and "0.2 \<le> snd c"
  shows "identify_crop self w path = \<lparr> crop_type = fst c, crop_confidence = snd c \<rparr>"
  using assms select_crop_primary [of "crop_candidates self path f"]
  by (simp add: identify_crop_def split_beta)

text \<open>
  Claim C6, amended: the primary either stage returns is the first candidate, in
  the order in which the stage appends its generators, among those of the
  highest confidence (the stage returns it when it reaches the stage's floor).
  The disease stage appends the detector (model-based), then the feature
  heuristic, then the visual heuristic, so the detector's candidate wins every
  tie; the crop stage appends the colour heuristic, then the shape heuristic,
  then the crop analyzer (model-based), so there the colour heuristic wins
  every tie and the model-based candidate loses every tie.
\<close>

theorem C6_first_appended_wins_ties:
  assumes "imread w path = Some img"
    and "extract_disease_features img = Inr features"
    and "extract_crop_features img = Inr f"
  shows "(pd = pool [detector_candidate self path,
                     identify_disease_by_features features crop,
                     identify_disease_by_visual_analysis features crop]
          \<and> pd \<noteq> [] \<and> c = hd (filter (\<lambda>c. \<forall>x \<in> set pd. snd x \<le> snd c) pd) \<and> 0.3 \<le> snd c
          \<longrightarrow> detect_disease self w path crop
               = \<lparr> disease = fst c, confidence = snd c, severity_percent = 0 \<rparr>)
       \<and> (pc = pool [identify_crop_by_color f,
                       identify_crop_by_shape f,
                       analyzer_candidate self path]
          \<and> pc \<noteq> [] \<and> k = hd (filter (\<lambda>c. \<forall>x \<in> set pc. snd x \<le> snd c) pc) \<and> 0.2 \<le> snd k
          \<longrightarrow> identify_crop self w path = \<lparr> crop_type = fst k, crop_confidence = snd k \<rparr>)
       \<and> (detector_candidate self path = Some c
          \<and> (\<forall>x \<in> set (disease_candidates self path features crop). snd x \<le> snd c)
          \<and> 0.3 \<le> snd c
          \<longrightarrow> detect_disease self w path crop
               = \<lparr> disease = fst c, confidence = snd c, severity_percent = 0 \<rparr>)
       \<and> (identify_crop_by_color f = Some k
          \<and> (\<forall>x \<in> set (crop_candidates self path f). snd x \<le> snd k)
          \<and> 0.2 \<le> snd k
          \<longrightarrow> identify_crop self w path = \<lparr> crop_type = fst k, crop_confidence = snd k \<rparr>)"
proof (intro conjI impI)
  assume h: "pd = pool [detector_candidate self path,
                        identify_disease_by_features features crop,
                        identify_disease_by_visual_analysis features crop]
             \<and> pd \<noteq> [] \<and> c = hd (filter (\<lambda>c. \<forall>x \<in> set pd. snd x \<le> snd c) pd) \<and> 0.3 \<le> snd c"
  then have pd: "disease_candidates self path features crop = pd"
    by (simp add: disease_candidates_def)
  from h have ne: "pd \<noteq> []" and floor: "0.3 \<le> snd c"
    and ceq: "c = hd (filter (\<lambda>c. \<forall>x \<in> set pd. snd x \<le> snd c) pd)"
    by blast+
  have "hd (sort_by_confidence pd) = hd (filter (\<lambda>c. \<forall>x \<in> set pd. snd x \<le> snd c) pd)"
    using ne by (rule hd_sort_by_confidence_first_top)
  with ceq have hc: "hd (sort_by_confidence pd) = c" by simp
  show "detect_disease self w path crop
               = \<lparr> disease = fst c, confidence = snd c, severity_percent = 0 \<rparr>"
    by (rule detect_disease_primary [OF assms(1,2) _ _ floor]) (simp_all add: pd ne hc)
next
  assume h: "pc = pool [identify_crop_by_color f,
                        identify_crop_by_shape f,
                        analyzer_candidate self path]
             \<and> pc \<noteq> [] \<and> k = hd (filter (\<lambda>c. \<forall>x \<in> set pc. snd x \<le> snd c) pc) \<and> 0.2 \<le> snd k"
  then have pc: "crop_candidates self path f = pc"
    by (simp add: crop_candidates_def)
  from h have ne: "pc \<noteq> []" and floor: "0.2 \<le> snd k"
    and keq: "k = hd (filter (\<lambda>c. \<forall>x \<in> set pc. snd x \<le> snd c) pc)"
    by blast+
  have "hd (sort_by_confidence pc) = hd (filter (\<lambda>c. \<forall>x \<in> set pc. snd x \<le> snd c) pc)"
    using ne by (rule hd_sort_by_confidence_first_top)
  with keq have hk: "hd (sort_by_confidence pc) = k" by simp
  show "identify_crop self w path = \<lparr> crop_type = fst k, crop_confidence = snd k \<rparr>"
    by (rule identify_crop_primary [OF assms(1,3) _ _ floor]) (simp_all add: pc ne hk)
next
  assume h: "detector_candidate self path = Some c
             \<and> (\<forall>x \<in> set (disease_candidates self path features crop). snd x \<le> snd c)
             \<and> 0.3 \<le> snd c"
  then have floor: "0.3 \<le> snd c"
    and top: "\<forall>x \<in> set (disease_candidates self path features crop). snd x \<le> snd c"
    by blast+
  from h obtain post where split: "disease_candidates self path features crop = [] @ c # post"
    by (simp add: disease_candidates_def pool_def)
  have "hd (sort_by_confidence ([] @ c # post)) = c"
    using top unfolding split by (intro hd_sort_by_confidence_first) simp_all
  then have hc: "hd (sort_by_confidence (disease_candidates self path features crop)) = c"
    by (simp only: split)
  show "detect_disease self w path crop
               = \<lparr> disease = fst c, confidence = snd c, severity_percent = 0 \<rparr>"
    by (rule detect_disease_primary [OF assms(1,2) _ hc floor]) (simp add: split)
next
  assume h: "identify_crop_by_color f = Some k
             \<and> (\<forall>x \<in> set (crop_candidates self path f). snd x \<le> snd k)
             \<and> 0.2 \<le> snd k"
  then have floor: "0.2 \<le> snd k"
    and top: "\<forall>x \<in> set (crop_candidates self path f). snd x \<le> snd k"
    by blast+
  from h obtain post where split: "crop_candidates self path f = [] @ k # post"
    by (simp add: crop_candidates_def pool_def)
  have "hd (sort_by_confidence ([] @ k # post)) = k"
    using top unfolding split by (intro hd_sort_by_confidence_first) simp_all
  then have hk: "hd (sort_by_confidence (crop_candidates self path f)) = k"
    by (simp only: split)
  show "identify_crop self w path = \<lparr> crop_type = fst k, crop_confidence = snd k \<rparr>"
    by (rule identify_crop_primary [OF assms(1,3) _ hk floor]) (simp add: split)
qed

text \<open>
  On the sample photograph both pools hold a tie at the top: the detector's
  early blight against the visual heuristic's late blight at 0.8, and the colour
  heuristic's rice against the analyzer's wheat at 0.7.
\<close>

theorem C6_first_appended_wins_ties_witness:
  "imread sample_world ''leaf.jpg'' = Some leaf_image
   \<and> \<not> isl (extract_disease_features leaf_image)
   \<and> \<not> isl (extract_crop_features leaf_image)
   \<and> disease_candidates sample_doctor ''leaf.jpg'' (projr (extract_disease_features leaf_image))
       ''Rice'' = [(''Early Blight'', 0.8), (''Late Blight'', 0.8)]
   \<and> detector_candidate sample_doctor ''leaf.jpg'' = Some (''Early Blight'', 0.8)
   \<and> detect_disease sample_doctor sample_world ''leaf.jpg'' ''Rice''
       = \<lparr> disease = ''Early Blight'', confidence = 0.8, severity_percent = 0 \<rparr>
   \<and> crop_candidates sample_doctor ''leaf.jpg'' (projr (extract_crop_features leaf_image))
       = [(''Rice'', 0.7), (''Wheat'', 0.7)]
   \<and> identify_crop_by_color (projr (extract_crop_features leaf_image)) = Some (''Rice'', 0.7)
   \<and> analyzer_candidate sample_doctor ''leaf.jpg'' = Some (''Wheat'', 0.7)
   \<and> identify_crop sample_doctor sample_world ''leaf.jpg''
       = \<lparr> crop_type = ''Rice'', crop_confidence = 0.7 \<rparr>"
proof -
  let ?features = "projr (extract_disease_features leaf_image)"
  let ?f = "projr (extract_crop_features leaf_image)"
  have i: "imread sample_world ''leaf.jpg'' = Some leaf_image" by (simp add: sample_world_def)
  have ed: "extract_disease_features leaf_image = Inr ?features"
    by (simp add: leaf_disease_features)
  have ec: "extract_crop_features leaf_image = Inr ?f"
    by (simp add: leaf_crop_features)
  have dc: "disease_candidates sample_doctor ''leaf.jpg'' ?features ''Rice''
            = [(''Early Blight'', 0.8), (''Late Blight'', 0.8)]"
    unfolding leaf_disease_features sum.sel by (rule leaf_disease_candidates)
  have cc: "crop_candidates sample_doctor ''leaf.jpg'' ?f = [(''Rice'', 0.7), (''Wheat'', 0.7)]"
    unfolding leaf_crop_features sum.sel by (rule leaf_crop_candidates)
  have det: "detector_candidate sample_doctor ''leaf.jpg'' = Some (''Early Blight'', 0.8)"
    by (simp add: detector_candidate_def sample_doctor_def)
  have col: "identify_crop_by_color ?f = Some (''Rice'', 0.7)"
    by (simp add: leaf_crop_features identify_crop_by_color_def)
  have ana: "analyzer_candidate sample_doctor ''leaf.jpg'' = Some (''Wheat'', 0.7)"
    by (simp add: analyzer_candidate_def sample_doctor_def)
  note inst = C6_first_appended_wins_ties [OF i ed ec,
      of "[(''Early Blight'', 0.8), (''Late Blight'', 0.8)]" sample_doctor "''Rice''"
         "(''Early Blight'', 0.8)" "[(''Rice'', 0.7), (''Wheat'', 0.7)]" "(''Rice'', 0.7)"]
  have d: "detect_disease sample_doctor sample_world ''leaf.jpg'' ''Rice''
           = \<lparr> disease = ''Early Blight'', confidence = 0.8, severity_percent = 0 \<rparr>"
    using inst [THEN conjunct2, THEN conjunct2, THEN conjunct1] det dc by simp
  have c: "identify_crop sample_doctor sample_world ''leaf.jpg''
           = \<lparr> crop_type = ''Rice'', crop_confidence = 0.7 \<rparr>"
    using inst [THEN conjunct2, THEN conjunct2, THEN conjunct2] col cc by simp
  have nd: "\<not> isl (extract_disease_features leaf_image)"
    by (simp add: leaf_disease_features)
  have nc: "\<not> isl (extract_crop_features leaf_image)"
    by (simp add: leaf_crop_features)
  show ?thesis
    using i nd nc dc cc det col ana d c by simp
qed

section \<open>The severity estimator: bounds\<close>

text \<open>
  Claim C4: the severity returned by the severity-assessment stage lies between
  5 and 100 on every path: the image that cannot be read, the exception
  fallback, the default without signals and the clamped average.
\<close>

theorem C4_severity_in_bounds:
  "5 \<le> severity_percent (assess_severity self w path d)
   \<and> severity_percent (assess_severity self w path d) \<le> 100"
  by (simp add: assess_severity_def final_severity_def split: option.split sum.split)

section \<open>The severity estimator: the healthy label\<close>

lemma adjust_healthy: "adjust_severity_by_disease s ''Healthy'' = 0"
  by (simp add: adjust_severity_by_disease_def adjustments_def)

lemma visual_severity_other:
  assumes "hsv img \<noteq> []"
    and "d \<notin> set [''Powdery Mildew'', ''Early Blight'', ''Late Blight'', ''Bacterial Spot'']"
  shows "calculate_visual_severity img d = Inr 0"
  using assms by (simp add: calculate_visual_severity_def)

lemma extract_disease_features_Inr:
  "extract_disease_features img = Inr features \<Longrightarrow> hsv img \<noteq> []"
  by (auto simp: extract_disease_features_def split: if_splits)

lemma assess_severity_decoded:
  assumes "imread w path = Some img" and "hsv img \<noteq> []"
  shows "assess_severity self w path d =
           \<lparr> disease = d, confidence = 0.85,
             severity_percent =
               final_severity
                 (projr (severity_scores self path img (projr (extract_disease_features img)) d)) d \<rparr>"
  using assms
  by (simp add: assess_severity_def extract_disease_features_def severity_scores_def
      calculate_visual_severity_def Let_def)

lemma leaf_visual_healthy: "calculate_visual_severity leaf_image ''Healthy'' = Inr 0"
  by (rule visual_severity_other) (simp_all add: leaf_image_def)

lemma imread_leaf: "imread sample_world ''leaf.jpg'' = Some leaf_image"
  by (simp add: sample_world_def)

lemma imread_blank: "imread sample_world ''blank.jpg'' = Some blank_image"
  by (simp add: sample_world_def)

text \<open>
  Claim C3, as stated: for a decodable image and the label \<^verbatim>\<open>Healthy\<close> the
  final severity returned by the stage is 0. On the sample photograph it is 5:
  the multiplier turns the average into 0 and the bounds raise it to 5.
\<close>

theorem C3_healthy_counterexample:
  "imread sample_world ''leaf.jpg'' = Some leaf_image
   \<and> severity_percent (assess_severity sample_doctor sample_world ''leaf.jpg'' ''Healthy'') = 5
   \<and> severity_percent (assess_severity sample_doctor sample_world ''leaf.jpg'' ''Healthy'') \<noteq> 0"
  by (simp add: assess_severity_def sample_world_def leaf_disease_features severity_scores_def
      leaf_visual_healthy final_severity_def adjust_healthy detector_scores_def
      sample_doctor_def)

text \<open>
  Claim C3, amended: for the label \<^verbatim>\<open>Healthy\<close> the disease-specific adjustment
  returns 0 whatever the average, and for a decodable image to which at least
  one signal contributed the stage returns the lower bound 5.
\<close>

theorem C3_healthy_severity:
  assumes "imread w path = Some img" and "extract_disease_features img = Inr features"
    and "severity_scores self path img features ''Healthy'' = Inr scores" and "scores \<noteq> []"
  shows "adjust_severity_by_disease s ''Healthy'' = 0
       \<and> final_severity scores ''Healthy'' = 5
       \<and> severity_percent (assess_severity self w path ''Healthy'') = 5"
  using assms
  by (simp add: assess_severity_def final_severity_def adjust_healthy)

text \<open>
  Two signals on the sample photograph with the full doctor, one with the bare
  doctor.
\<close>

theorem C3_healthy_severity_witness:
  "imread sample_world ''leaf.jpg'' = Some leaf_image
   \<and> \<not> isl (extract_disease_features leaf_image)
   \<and> severity_scores sample_doctor ''leaf.jpg'' leaf_image
         (projr (extract_disease_features leaf_image)) ''Healthy'' = Inr [75, 41.3]
   \<and> severity_percent (assess_severity sample_doctor sample_world ''leaf.jpg'' ''Healthy'') = 5
   \<and> severity_scores bare_doctor ''leaf.jpg'' leaf_image
         (projr (extract_disease_features leaf_image)) ''Healthy'' = Inr [41.3]
   \<and> severity_percent (assess_severity bare_doctor sample_world ''leaf.jpg'' ''Healthy'') = 5"
proof -
  let ?features = "projr (extract_disease_features leaf_image)"
  have e: "extract_disease_features leaf_image = Inr ?features"
    by (simp add: leaf_disease_features)
  have n: "\<not> isl (extract_disease_features leaf_image)"
    by (simp add: leaf_disease_features)
  have f: "positive_score (calculate_severity_from_features ?features ''Healthy'') = [41.3]"
    by (simp add: leaf_disease_features calculate_severity_from_features_def positive_score_def)
  have s1: "severity_scores sample_doctor ''leaf.jpg'' leaf_image ?features ''Healthy''
            = Inr [75, 41.3]"
    using f
    by (simp add: severity_scores_def leaf_visual_healthy detector_scores_def sample_doctor_def
        severity_map_def positive_score_def)
  have s2: "severity_scores bare_doctor ''leaf.jpg'' leaf_image ?features ''Healthy''
            = Inr [41.3]"
    using f
    by (simp add: severity_scores_def leaf_visual_healthy detector_scores_def bare_doctor_def
        positive_score_def)
  have ne1: "[75, 41.3 :: real] \<noteq> []" and ne2: "[41.3 :: real] \<noteq> []" by simp_all
  from C3_healthy_severity [OF imread_leaf e s1 ne1, of 0]
    C3_healthy_severity [OF imread_leaf e s2 ne2, of 0]
    imread_leaf n s1 s2
  show ?thesis by blast
qed

text \<open>
  Without any signal the stage returns the default 50 under every label: the
  adjustment is applied to an average only.
\<close>

lemma severity_without_signals:
  assumes "imread w path = Some img" and "extract_disease_features img = Inr features"
    and "severity_scores self path img features d = Inr []"
  shows "severity_percent (assess_severity self w path d) = 50"
  using assms by (simp add: assess_severity_def final_severity_def)

section \<open>The severity estimator: confidence and the visual signal\<close>

text \<open>
  Claim C9: for every decodable image and every disease label the stage returns
  confidence 0.85, whichever signals contributed, and the result holds the
  label, that confidence and the final severity only: the number of signals is
  not part of it.
\<close>

theorem C9_severity_confidence:
  assumes "imread w path = Some img" and "hsv img \<noteq> []"
  shows "confidence (assess_severity self w path d) = 0.85
       \<and> assess_severity self w path d =
           \<lparr> disease = d, confidence = 0.85,
             severity_percent =
               final_severity
                 (projr (severity_scores self path img (projr (extract_disease_features img)) d)) d \<rparr>"
  using assess_severity_decoded [OF assms] by simp

text \<open>
  Three signals on the sample photograph with the full doctor, none on the
  uniform picture with the bare doctor: the confidence is the same.
\<close>

theorem C9_severity_confidence_witness:
  "imread sample_world ''leaf.jpg'' = Some leaf_image \<and> hsv leaf_image \<noteq> []
   \<and> imread sample_world ''blank.jpg'' = Some blank_image \<and> hsv blank_image \<noteq> []
   \<and> confidence (assess_severity sample_doctor sample_world ''leaf.jpg'' ''Early Blight'') = 0.85
   \<and> confidence (assess_severity bare_doctor sample_world ''blank.jpg'' ''Early Blight'') = 0.85"
proof -
  have l: "hsv leaf_image \<noteq> []" by (simp add: leaf_image_def)
  have b: "hsv blank_image \<noteq> []" by (simp add: blank_image_def)
  show ?thesis
    using imread_leaf imread_blank l b
      C9_severity_confidence [OF imread_leaf l, of sample_doctor "''Early Blight''"]
      C9_severity_confidence [OF imread_blank b, of bare_doctor "''Early Blight''"]
    by simp
qed

text \<open>
  Claim C10: for a decoded image and a disease label other than powdery mildew,
  early blight, late blight and bacterial spot, \<^verbatim>\<open>Healthy\<close> among them, the
  visual severity is 0, and the list of signals that is averaged holds the
  detector's signal and the feature signal only.
\<close>

theorem C10_visual_signal_excluded:
  assumes "hsv img \<noteq> []"
    and "d \<notin> set [''Powdery Mildew'', ''Early Blight'', ''Late Blight'', ''Bacterial Spot'']"
  shows "calculate_visual_severity img d = Inr 0
       \<and> severity_scores self path img features d =
           Inr (detector_scores self path
                @ positive_score (calculate_severity_from_features features d))"
  using visual_severity_other [OF assms]
  by (simp add: severity_scores_def positive_score_def)

theorem C10_visual_signal_excluded_witness:
  "hsv leaf_image \<noteq> []
   \<and> ''Healthy'' \<notin> set [''Powdery Mildew'', ''Early Blight'', ''Late Blight'', ''Bacterial Spot'']
   \<and> calculate_visual_severity leaf_image ''Healthy'' = Inr 0
   \<and> severity_scores sample_doctor ''leaf.jpg'' leaf_image
         (projr (extract_disease_features leaf_image)) ''Healthy'' = Inr [75, 41.3]"
proof -
  have l: "hsv leaf_image \<noteq> []" by (simp add: leaf_image_def)
  have h: "''Healthy'' \<notin> set [''Powdery Mildew'', ''Early Blight'', ''Late Blight'', ''Bacterial Spot'']"
    by simp
  show ?thesis
    using l h
      C10_visual_signal_excluded [OF l h, of sample_doctor "''leaf.jpg''"
        "projr (extract_disease_features leaf_image)"]
    by (simp add: leaf_disease_features detector_scores_def sample_doctor_def severity_map_def
        positive_score_def calculate_severity_from_features_def)
qed

section \<open>The severity estimator: monotonicity in the affected area\<close>

lemma multiplier_nonneg: "0 \<le> case_option 1.0 id (adjustments d)"
  by (simp add: adjustments_def)

lemma adjust_severity_mono:
  "s \<le> t \<Longrightarrow> adjust_severity_by_disease s d \<le> adjust_severity_by_disease t d"
  using multiplier_nonneg [of d]
  by (simp add: adjust_severity_by_disease_def mult_right_mono)

lemma final_severity_mono:
  assumes "length xs = length ys" and "sum_list xs \<le> sum_list ys"
  shows "final_severity xs d \<le> final_severity ys d"
proof (cases "xs = []")
  case True
  with assms(1) show ?thesis by simp
next
  case False
  with assms(1) have ne: "ys \<noteq> []" by auto
  have "sum_list xs / real (length xs) \<le> sum_list ys / real (length ys)"
    using assms by (simp add: divide_right_mono)
  then have "adjust_severity_by_disease (sum_list xs / real (length xs)) d
           \<le> adjust_severity_by_disease (sum_list ys / real (length ys)) d"
    by (rule adjust_severity_mono)
  with False ne show ?thesis by (simp add: final_severity_def)
qed

lemma severity_from_features_mono:
  assumes "total_affected_area f \<le> total_affected_area g"
    and "num_spots f = num_spots g" and "texture_contrast f = texture_contrast g"
  shows "calculate_severity_from_features f d \<le> calculate_severity_from_features g d"
proof -
  have "min 100 (total_affected_area f / 10000 * 100) \<le> min 100 (total_affected_area g / 10000 * 100)"
    using assms(1) by (simp add: min_le_iff_disj)
  with assms(2,3) show ?thesis
    by (simp add: calculate_severity_from_features_def Let_def)
qed

lemma severity_from_features_positive:
  assumes "0 < num_spots f" and "0 \<le> total_affected_area f" and "0 \<le> texture_contrast f"
  shows "0 < calculate_severity_from_features f d"
proof -
  have a: "0 \<le> min 100 (total_affected_area f / 10000 * 100)" using assms(2) by simp
  have t: "0 \<le> min 100 (texture_contrast f / 50 * 100)" using assms(3) by simp
  have "1 \<le> real (num_spots f * 3)" using assms(1) by simp
  then have s: "1 \<le> min 100 (real (num_spots f * 3))" by simp
  from a t s show ?thesis
    by (simp add: calculate_severity_from_features_def Let_def)
qed

text \<open>
  Claim C5: with the disease label, the detector's signal, the pixels and every
  feature other than the affected area held fixed (the number of contours and
  the texture contrast among them), a smaller affected area never gives a larger
  final severity. Contour areas and the standard deviation of the grey values
  are not negative.
\<close>

theorem C5_severity_monotone_in_area:
  assumes "imread w path = Some img"
    and "imread w' path = Some (img\<lparr>contour_areas := areas\<rparr>)"
    and "length areas = length (contour_areas img)"
    and "sum_list areas \<le> sum_list (contour_areas img)"
    and "list_all (\<lambda>a. 0 \<le> a) areas"
    and "0 \<le> gray_std img"
  shows "severity_percent (assess_severity self w' path d)
       \<le> severity_percent (assess_severity self w path d)"
proof (cases "hsv img = []")
  case True
  with assms(1,2) show ?thesis
    by (simp add: assess_severity_def extract_disease_features_def)
next
  case False
  let ?img' = "img\<lparr>contour_areas := areas\<rparr>"
  obtain f where f: "extract_disease_features img = Inr f"
    and f_area: "total_affected_area f = sum_list (contour_areas img)"
    and f_spots: "num_spots f = length (contour_areas img)"
    and f_contrast: "texture_contrast f = gray_std img"
    using False by (simp add: extract_disease_features_def Let_def)
  obtain g where g: "extract_disease_features ?img' = Inr g"
    and g_area: "total_affected_area g = sum_list areas"
    and g_spots: "num_spots g = length areas"
    and g_contrast: "texture_contrast g = gray_std img"
    using False by (simp add: extract_disease_features_def Let_def)
  obtain v where v: "calculate_visual_severity img d = Inr v"
    using False by (simp add: calculate_visual_severity_def Let_def)
  have "calculate_visual_severity ?img' d = calculate_visual_severity img d"
    by (simp add: calculate_visual_severity_def count_pixels_def)
  with v have v': "calculate_visual_severity ?img' d = Inr v" by simp
  let ?sf = "calculate_severity_from_features f d"
  let ?sg = "calculate_severity_from_features g d"
  let ?xs = "detector_scores self path @ positive_score ?sg @ positive_score v"
  let ?ys = "detector_scores self path @ positive_score ?sf @ positive_score v"
  have le: "?sg \<le> ?sf"
    by (rule severity_from_features_mono)
       (simp_all add: f_area g_area f_spots g_spots f_contrast g_contrast assms(3,4))
  have scores: "length ?xs = length ?ys \<and> sum_list ?xs \<le> sum_list ?ys"
  proof (cases "areas = []")
    case True
    with assms(3) have "contour_areas img = []" by simp
    with True f_area g_area f_spots g_spots f_contrast g_contrast
    have "?sg = ?sf" by (simp add: calculate_severity_from_features_def)
    then show ?thesis by simp
  next
    case ne: False
    have "0 \<le> sum_list areas"
      using assms(5) by (induction areas) auto
    with ne g_area g_spots g_contrast assms(6) have "0 < ?sg"
      by (intro severity_from_features_positive) simp_all
    with le show ?thesis by (simp add: positive_score_def)
  qed
  have "final_severity ?xs d \<le> final_severity ?ys d"
    using scores by (intro final_severity_mono) simp_all
  with assms(1,2) f g v v' show ?thesis
    by (simp add: assess_severity_def severity_scores_def)
qed

theorem C5_severity_monotone_in_area_witness:
  "imread sample_world ''leaf.jpg'' = Some leaf_image
   \<and> imread (sample_world\<lparr>imread :=
                 (\<lambda>p. Some (leaf_image\<lparr>contour_areas := [100, 300]\<rparr>))\<rparr>) ''leaf.jpg''
       = Some (leaf_image\<lparr>contour_areas := [100, 300]\<rparr>)
   \<and> length [100, 300 :: real] = length (contour_areas leaf_image)
   \<and> sum_list [100, 300] \<le> sum_list (contour_areas leaf_image)
   \<and> list_all (\<lambda>a. 0 \<le> a) [100, 300 :: real]
   \<and> 0 \<le> gray_std leaf_image
   \<and> severity_percent
         (assess_severity sample_doctor
            (sample_world\<lparr>imread :=
               (\<lambda>p. Some (leaf_image\<lparr>contour_areas := [100, 300]\<rparr>))\<rparr>)
            ''leaf.jpg'' ''Early Blight'')
       \<le> severity_percent
           (assess_severity sample_doctor sample_world ''leaf.jpg'' ''Early Blight'')"
proof -
  let ?w = "sample_world\<lparr>imread :=
              (\<lambda>p. Some (leaf_image\<lparr>contour_areas := [100, 300]\<rparr>))\<rparr>"
  have i: "imread ?w ''leaf.jpg'' = Some (leaf_image\<lparr>contour_areas := [100, 300]\<rparr>)"
    by simp
  have l: "length [100, 300 :: real] = length (contour_areas leaf_image)"
    by (simp add: leaf_image_def)
  have s: "sum_list [100, 300] \<le> sum_list (contour_areas leaf_image)"
    by (simp add: leaf_image_def)
  have p: "list_all (\<lambda>a. 0 \<le> a) [100, 300 :: real]" by simp
  have g: "0 \<le> gray_std leaf_image" by (simp add: leaf_image_def)
  from C5_severity_monotone_in_area [OF imread_leaf i l s p g, of sample_doctor "''Early Blight''"]
    imread_leaf i l s p g
  show ?thesis by blast
qed

section \<open>The result cache\<close>

lemma insert_or_replace_rows:
  "analysis_cache (insert_or_replace db h crop d sev recs ts) =
     filter (\<lambda>r. image_hash r \<noteq> h) (analysis_cache db)
     @ [\<lparr> row_id = Suc (sqlite_sequence db), image_hash = h, row_crop_type = crop,
          row_disease = d, row_severity = sev, row_recommendations = recs,
          row_timestamp = ts \<rparr>]"
  by (simp add: insert_or_replace_def Let_def)

text \<open>
  Claim C7: the upsert leaves exactly one row under the hash, holding the
  payload in full, leaves the rows of other hashes as they were, and a second
  upsert of the same hash and payload leaves every observable row unchanged.
\<close>

theorem C7_upsert_replaces_and_is_idempotent:
  "map cache_entry
       (filter (\<lambda>r. image_hash r = h)
          (analysis_cache (insert_or_replace db h crop d sev recs ts)))
     = [(h, crop, d, sev, recs, ts)]
   \<and> filter (\<lambda>r. image_hash r \<noteq> h) (analysis_cache (insert_or_replace db h crop d sev recs ts))
     = filter (\<lambda>r. image_hash r \<noteq> h) (analysis_cache db)
   \<and> map cache_entry
       (analysis_cache
          (insert_or_replace (insert_or_replace db h crop d sev recs ts) h crop d sev recs ts))
     = map cache_entry (analysis_cache (insert_or_replace db h crop d sev recs ts))
   \<and> map cache_entry
       (analysis_cache (cache_analysis_results w (cache_analysis_results w db path report) path report))
     = map cache_entry (analysis_cache (cache_analysis_results w db path report))"
  by (simp add: insert_or_replace_rows cache_analysis_results_def cache_entry_def
      split: option.split sum.split)

text \<open>The \<^verbatim>\<open>id\<close> of the row is not kept: the replacing row gets a fresh one.\<close>

lemma upsert_fresh_id:
  "map row_id (filter (\<lambda>r. image_hash r = h)
      (analysis_cache (insert_or_replace (insert_or_replace db h crop d sev recs ts) h crop d sev recs ts)))
   = [Suc (Suc (sqlite_sequence db))]"
  by (simp add: insert_or_replace_rows) (simp add: insert_or_replace_def)

section \<open>Health\<close>

text \<open>
  Claim C8: \<^verbatim>\<open>get_health_status\<close> reports the status \<^verbatim>\<open>healthy\<close> and each of
  the five services as \<^verbatim>\<open>operational\<close> in every state of the object, also in
  the state \<^verbatim>\<open>_initialize_services\<close> leaves when every service constructor
  raised and the five attributes are \<^verbatim>\<open>None\<close>.
\<close>

theorem C8_health_always_operational:
  "status (get_health_status self w) = ''healthy''
   \<and> services (get_health_status self w)
       = \<lparr> st_crop_analysis = ''operational'', st_disease_detection = ''operational'',
           st_yield_prediction = ''operational'', st_treatment_engine = ''operational'',
           st_recommendation_service = ''operational'' \<rparr>
   \<and> initialize_services (Inr None) (Inl ServiceError) (Inl ServiceError) (Inl ServiceError)
         (Inl ServiceError) (Inl ServiceError) = Inr bare_doctor
   \<and> services (get_health_status bare_doctor w)
       = \<lparr> st_crop_analysis = ''operational'', st_disease_detection = ''operational'',
           st_yield_prediction = ''operational'', st_treatment_engine = ''operational'',
           st_recommendation_service = ''operational'' \<rparr>"
  by (simp add: get_health_status_def initialize_services_def attribute_def bare_doctor_def)

section \<open>The pipeline: what fails and what does not\<close>

lemma identify_crop_unreadable:
  "imread w path = None \<Longrightarrow>
     identify_crop self w path = \<lparr> crop_type = ''Unknown'', crop_confidence = 0 \<rparr>"
  by (simp add: identify_crop_def)

lemma detect_disease_unreadable:
  "imread w path = None \<Longrightarrow>
     detect_disease self w path crop
       = \<lparr> disease = ''Unknown'', confidence = 0, severity_percent = 0 \<rparr>"
  by (simp add: detect_disease_def)

lemma assess_severity_unreadable:
  "imread w path = None \<Longrightarrow>
     assess_severity self w path d = \<lparr> disease = d, confidence = 0, severity_percent = 50 \<rparr>"
  by (simp add: assess_severity_def)

lemma generate_visual_overlay_failed:
  assumes "\<forall>img. imread w path = Some img \<longrightarrow> isl (draw_overlay w img d severity)"
  shows "generate_visual_overlay w path d severity = None"
  using assms by (auto simp: generate_visual_overlay_def split: option.split sum.split)

lemma get_recommendations_failed:
  assumes "\<forall>engine. treatment_engine self = Some engine \<longrightarrow> isl (engine crop d input_data)"
  shows "get_recommendations self crop d input_data
         = \<lparr> fertilizer_recommendation = ''Standard fertilizer'',
             fertilizer_dose = ''50 kg/acre'',
             pesticide_recommendation = ''No treatment needed'',
             pesticide_dose = ''0'' \<rparr>"
  using assms by (auto simp: get_recommendations_def split: option.split sum.split)

lemma predict_yield_failed:
  assumes "\<forall>predictor. yield_predictor self = Some predictor \<longrightarrow> isl (predictor crop input_data)"
  shows "predict_yield self crop input_data = \<lparr> predicted_yield = 0, yield_confidence = 0 \<rparr>"
  using assms by (auto simp: predict_yield_def split: option.split sum.split)

lemma get_smart_recommendations_failed:
  assumes "isl (smart_advice w d severity input_data)"
  shows "get_smart_recommendations w d severity input_data
         = \<lparr> irrigation_advice = ''Maintain regular irrigation schedule'',
             prevention_strategies = [''Regular field monitoring'', ''Proper sanitation''],
             growth_stage_tips = [''Follow standard cultivation practices''] \<rparr>"
  using assms by (auto simp: get_smart_recommendations_def split: sum.split)

lemma cache_analysis_results_row:
  assumes "md5_of_file w path = Some h" and "sqlite_write w h report = Inr ()"
  shows "map cache_entry
           (filter (\<lambda>r. image_hash r = h)
              (analysis_cache (cache_analysis_results w db path report)))
         = [(h, ca_crop_type (report_crop_analysis report),
             ca_disease (report_crop_analysis report),
             ca_disease_severity_percent (report_crop_analysis report),
             report_crop_analysis report, report_timestamp report)]"
  using assms by (simp add: cache_analysis_results_def insert_or_replace_rows cache_entry_def)

lemma cache_analysis_results_failed:
  assumes "md5_of_file w path = None \<or> (\<exists>h. md5_of_file w path = Some h \<and> isl (sqlite_write w h report))"
  shows "cache_analysis_results w db path report = db"
  using assms by (auto simp: cache_analysis_results_def split: option.split sum.split)

text \<open>
  Claim C1, as stated: a request whose image cannot be decoded fails with an
  Undecodable-Image error, without a report and without a cache row. The code
  has no such error: for a file that can be opened and is no image,
  \<^verbatim>\<open>analyze_crop\<close> returns a report and writes the cache row.
\<close>

theorem C1_undecodable_counterexample:
  "imread sample_world ''notes.txt'' = None
   \<and> \<not> isl (analyze_crop sample_doctor sample_world empty_db (sample_input ''notes.txt''))
   \<and> ca_crop_type (report_crop_analysis
         (fst (projr (analyze_crop sample_doctor sample_world empty_db
                        (sample_input ''notes.txt''))))) = ''Unknown''
   \<and> map image_hash (analysis_cache
         (snd (projr (analyze_crop sample_doctor sample_world empty_db
                        (sample_input ''notes.txt'')))))
       = [''92eb5ffee6ae2fec3ad71c777531578f'']"
proof -
  have n: "imread sample_world ''notes.txt'' = None" by (simp add: sample_world_def)
  have m: "md5_of_file sample_world ''notes.txt'' = Some ''92eb5ffee6ae2fec3ad71c777531578f''"
    by (simp add: sample_world_def)
  have s: "sqlite_write sample_world = (\<lambda>h report. Inr ())" by (simp add: sample_world_def)
  show ?thesis
    using n m s
    by (simp add: analyze_crop_def Let_def sample_input_def identify_crop_unreadable
        cache_analysis_results_def insert_or_replace_rows empty_db_def
        generate_comprehensive_report_def)
qed

text \<open>
  Claim C1, amended: a request whose image cannot be decoded does not fail:
  \<^verbatim>\<open>analyze_crop\<close> returns a complete report that carries the crop
  \<^verbatim>\<open>Unknown\<close> and the disease \<^verbatim>\<open>Unknown\<close>, both with confidence 0, the
  severity 50 and no overlay, and its cache row is written whenever the file can
  be opened and the database write succeeds. For every image, decodable or not,
  every other component failure still yields a complete report, in which the
  failed component's part is its default: the standard fertilizer advice when
  the treatment engine is missing or raises, yield 0 with confidence 0 when the
  yield predictor is missing or raises, the fixed advice lists when the advice
  stage raises, no overlay when the drawing raises, and an untouched cache table
  when the cache write fails.
\<close>

theorem C1_always_reports:
  "\<exists>report db'.
     analyze_crop self w db input_data = Inr (report, db')
     \<and> db' = cache_analysis_results w db (image_path input_data) report
     \<and> (imread w (image_path input_data) = None \<longrightarrow>
          ca_crop_type (report_crop_analysis report) = ''Unknown''
          \<and> ca_disease (report_crop_analysis report) = ''Unknown''
          \<and> ca_disease_severity_percent (report_crop_analysis report) = 50
          \<and> cs_crop_type (ca_confidence_scores (report_crop_analysis report)) = 0
          \<and> cs_disease (ca_confidence_scores (report_crop_analysis report)) = 0
          \<and> ca_disease_overlay_image (report_crop_analysis report) = None
          \<and> (\<forall>h. md5_of_file w (image_path input_data) = Some h
                  \<and> sqlite_write w h report = Inr () \<longrightarrow>
                map cache_entry (filter (\<lambda>r. image_hash r = h) (analysis_cache db'))
                = [(h, ''Unknown'', ''Unknown'', 50, report_crop_analysis report,
                    report_timestamp report)]))
     \<and> ((\<forall>engine. treatment_engine self = Some engine \<longrightarrow>
            isl (engine (ca_crop_type (report_crop_analysis report))
                   (ca_disease (report_crop_analysis report)) input_data)) \<longrightarrow>
          ca_fertilizer_recommendation (report_crop_analysis report) = ''Standard fertilizer''
          \<and> ca_fertilizer_dose (report_crop_analysis report) = ''50 kg/acre''
          \<and> ca_pesticide_recommendation (report_crop_analysis report) = ''No treatment needed''
          \<and> ca_pesticide_dose (report_crop_analysis report) = ''0'')
     \<and> ((\<forall>predictor. yield_predictor self = Some predictor \<longrightarrow>
            isl (predictor (ca_crop_type (report_crop_analysis report)) input_data)) \<longrightarrow>
          ca_predicted_yield (report_crop_analysis report) = 0
          \<and> cs_yield_prediction (ca_confidence_scores (report_crop_analysis report)) = 0)
     \<and> (isl (smart_advice w (ca_disease (report_crop_analysis report))
                 (ca_disease_severity_percent (report_crop_analysis report)) input_data) \<longrightarrow>
          ca_irrigation_advice (report_crop_analysis report)
            = ''Maintain regular irrigation schedule''
          \<and> ca_prevention_strategies (report_crop_analysis report)
            = [''Regular field monitoring'', ''Proper sanitation'']
          \<and> ca_growth_stage_tips (report_crop_analysis report)
            = [''Follow standard cultivation practices''])
     \<and> ((\<forall>img. imread w (image_path input_data) = Some img \<longrightarrow>
            isl (draw_overlay w img (ca_disease (report_crop_analysis report))
                   (ca_disease_severity_percent (report_crop_analysis report)))) \<longrightarrow>
          ca_disease_overlay_image (report_crop_analysis report) = None)
     \<and> (md5_of_file w (image_path input_data) = None
          \<or> (\<exists>h. md5_of_file w (image_path input_data) = Some h \<and> isl (sqlite_write w h report))
         \<longrightarrow> db' = db)"
proof -
  let ?path = "image_path input_data"
  let ?crop = "identify_crop self w ?path"
  let ?dis = "detect_disease self w ?path (crop_type ?crop)"
  let ?sev = "assess_severity self w ?path (disease ?dis)"
  let ?rec = "get_recommendations self (crop_type ?crop) (disease ?dis) input_data"
  let ?smart = "get_smart_recommendations w (disease ?dis) (severity_percent ?sev) input_data"
  let ?yield = "predict_yield self (crop_type ?crop) input_data"
  let ?overlay = "generate_visual_overlay w ?path (disease ?dis) (severity_percent ?sev)"
  let ?report = "generate_comprehensive_report w ?crop ?dis ?sev ?rec ?smart ?yield ?overlay
                   input_data"
  let ?db = "cache_analysis_results w db ?path ?report"
  let ?ca = "report_crop_analysis ?report"
  have run: "analyze_crop self w db input_data = Inr (?report, ?db)"
    by (simp add: analyze_crop_def Let_def)
  have crop: "ca_crop_type ?ca = crop_type ?crop"
    and dis: "ca_disease ?ca = disease ?dis"
    and sev: "ca_disease_severity_percent ?ca = severity_percent ?sev"
    by (simp_all add: generate_comprehensive_report_def)
  have unreadable: "imread w ?path = None \<longrightarrow>
          ca_crop_type ?ca = ''Unknown'' \<and> ca_disease ?ca = ''Unknown''
          \<and> ca_disease_severity_percent ?ca = 50
          \<and> cs_crop_type (ca_confidence_scores ?ca) = 0
          \<and> cs_disease (ca_confidence_scores ?ca) = 0
          \<and> ca_disease_overlay_image ?ca = None
          \<and> (\<forall>h. md5_of_file w ?path = Some h \<and> sqlite_write w h ?report = Inr () \<longrightarrow>
                map cache_entry (filter (\<lambda>r. image_hash r = h) (analysis_cache ?db))
                = [(h, ''Unknown'', ''Unknown'', 50, ?ca, report_timestamp ?report)])"
  proof (intro impI conjI allI)
    assume n: "imread w ?path = None"
    show c: "ca_crop_type ?ca = ''Unknown''"
      unfolding crop using n by (simp add: identify_crop_unreadable)
    show d: "ca_disease ?ca = ''Unknown''"
      unfolding dis using n by (simp add: detect_disease_unreadable)
    show s: "ca_disease_severity_percent ?ca = 50"
      unfolding sev using n by (simp add: assess_severity_unreadable)
    show "cs_crop_type (ca_confidence_scores ?ca) = 0"
      using n by (simp add: generate_comprehensive_report_def identify_crop_unreadable)
    show "cs_disease (ca_confidence_scores ?ca) = 0"
      using n by (simp add: generate_comprehensive_report_def detect_disease_unreadable)
    show "ca_disease_overlay_image ?ca = None"
      using n by (simp add: generate_comprehensive_report_def generate_visual_overlay_def)
    fix h
    assume "md5_of_file w ?path = Some h \<and> sqlite_write w h ?report = Inr ()"
    then have "map cache_entry (filter (\<lambda>r. image_hash r = h) (analysis_cache ?db))
               = [(h, ca_crop_type ?ca, ca_disease ?ca, ca_disease_severity_percent ?ca, ?ca,
                   report_timestamp ?report)]"
      by (intro cache_analysis_results_row) simp_all
    then show "map cache_entry (filter (\<lambda>r. image_hash r = h) (analysis_cache ?db))
               = [(h, ''Unknown'', ''Unknown'', 50, ?ca, report_timestamp ?report)]"
      by (simp only: c d s)
  qed
  have engine: "(\<forall>engine. treatment_engine self = Some engine \<longrightarrow>
            isl (engine (ca_crop_type ?ca) (ca_disease ?ca) input_data)) \<longrightarrow>
          ca_fertilizer_recommendation ?ca = ''Standard fertilizer''
          \<and> ca_fertilizer_dose ?ca = ''50 kg/acre''
          \<and> ca_pesticide_recommendation ?ca = ''No treatment needed''
          \<and> ca_pesticide_dose ?ca = ''0''"
  proof
    assume "\<forall>engine. treatment_engine self = Some engine \<longrightarrow>
              isl (engine (ca_crop_type ?ca) (ca_disease ?ca) input_data)"
    then have "?rec = \<lparr> fertilizer_recommendation = ''Standard fertilizer'',
                 fertilizer_dose = ''50 kg/acre'',
                 pesticide_recommendation = ''No treatment needed'',
                 pesticide_dose = ''0'' \<rparr>"
      unfolding crop dis by (rule get_recommendations_failed)
    then show "ca_fertilizer_recommendation ?ca = ''Standard fertilizer''
          \<and> ca_fertilizer_dose ?ca = ''50 kg/acre''
          \<and> ca_pesticide_recommendation ?ca = ''No treatment needed''
          \<and> ca_pesticide_dose ?ca = ''0''"
      by (simp add: generate_comprehensive_report_def)
  qed
  have predictor: "(\<forall>predictor. yield_predictor self = Some predictor \<longrightarrow>
            isl (predictor (ca_crop_type ?ca) input_data)) \<longrightarrow>
          ca_predicted_yield ?ca = 0 \<and> cs_yield_prediction (ca_confidence_scores ?ca) = 0"
  proof
    assume "\<forall>predictor. yield_predictor self = Some predictor \<longrightarrow>
              isl (predictor (ca_crop_type ?ca) input_data)"
    then have "?yield = \<lparr> predicted_yield = 0, yield_confidence = 0 \<rparr>"
      unfolding crop by (rule predict_yield_failed)
    then show "ca_predicted_yield ?ca = 0 \<and> cs_yield_prediction (ca_confidence_scores ?ca) = 0"
      by (simp add: generate_comprehensive_report_def)
  qed
  have advice: "isl (smart_advice w (ca_disease ?ca) (ca_disease_severity_percent ?ca) input_data)
        \<longrightarrow> ca_irrigation_advice ?ca = ''Maintain regular irrigation schedule''
          \<and> ca_prevention_strategies ?ca = [''Regular field monitoring'', ''Proper sanitation'']
          \<and> ca_growth_stage_tips ?ca = [''Follow standard cultivation practices'']"
  proof
    assume "isl (smart_advice w (ca_disease ?ca) (ca_disease_severity_percent ?ca) input_data)"
    then have "?smart = \<lparr> irrigation_advice = ''Maintain regular irrigation schedule'',
             prevention_strategies = [''Regular field monitoring'', ''Proper sanitation''],
             growth_stage_tips = [''Follow standard cultivation practices''] \<rparr>"
      unfolding dis sev by (rule get_smart_recommendations_failed)
    then show "ca_irrigation_advice ?ca = ''Maintain regular irrigation schedule''
          \<and> ca_prevention_strategies ?ca = [''Regular field monitoring'', ''Proper sanitation'']
          \<and> ca_growth_stage_tips ?ca = [''Follow standard cultivation practices'']"
      by (simp add: generate_comprehensive_report_def)
  qed
  have overlay: "(\<forall>img. imread w ?path = Some img \<longrightarrow>
            isl (draw_overlay w img (ca_disease ?ca) (ca_disease_severity_percent ?ca))) \<longrightarrow>
          ca_disease_overlay_image ?ca = None"
  proof
    assume "\<forall>img. imread w ?path = Some img \<longrightarrow>
              isl (draw_overlay w img (ca_disease ?ca) (ca_disease_severity_percent ?ca))"
    then have "?overlay = None"
      unfolding dis sev by (rule generate_visual_overlay_failed)
    then show "ca_disease_overlay_image ?ca = None"
      by (simp add: generate_comprehensive_report_def)
  qed
  have cache: "md5_of_file w ?path = None
          \<or> (\<exists>h. md5_of_file w ?path = Some h \<and> isl (sqlite_write w h ?report))
         \<longrightarrow> ?db = db"
    using cache_analysis_results_failed [of w ?path ?report db] by blast
  show ?thesis
    by (rule exI [of _ ?report], rule exI [of _ ?db])
       (intro conjI run refl unreadable engine predictor advice overlay cache)
qed

text \<open>
  A file that is no image with the full doctor, whose treatment engine raises;
  and the sample photograph with the bare doctor in a world where the advice
  stage, the overlay drawing and the cache write all raise.
\<close>

theorem C1_always_reports_witness:
  "imread sample_world ''notes.txt'' = None
   \<and> md5_of_file sample_world ''notes.txt'' = Some ''92eb5ffee6ae2fec3ad71c777531578f''
   \<and> \<not> isl (analyze_crop sample_doctor sample_world empty_db (sample_input ''notes.txt''))
   \<and> map (\<lambda>r. (image_hash r, row_crop_type r, row_disease r, row_severity r))
         (filter (\<lambda>r. image_hash r = ''92eb5ffee6ae2fec3ad71c777531578f'')
            (analysis_cache
               (snd (projr (analyze_crop sample_doctor sample_world empty_db
                              (sample_input ''notes.txt''))))))
       = [(''92eb5ffee6ae2fec3ad71c777531578f'', ''Unknown'', ''Unknown'', 50)]
   \<and> ca_fertilizer_recommendation (report_crop_analysis
         (fst (projr (analyze_crop sample_doctor sample_world empty_db
                        (sample_input ''notes.txt''))))) = ''Standard fertilizer''
   \<and> imread failing_world ''leaf.jpg'' = Some leaf_image
   \<and> \<not> isl (analyze_crop bare_doctor failing_world empty_db (sample_input ''leaf.jpg''))
   \<and> ca_pesticide_recommendation (report_crop_analysis
         (fst (projr (analyze_crop bare_doctor failing_world empty_db
                        (sample_input ''leaf.jpg''))))) = ''No treatment needed''
   \<and> ca_predicted_yield (report_crop_analysis
         (fst (projr (analyze_crop bare_doctor failing_world empty_db
                        (sample_input ''leaf.jpg''))))) = 0
   \<and> ca_irrigation_advice (report_crop_analysis
         (fst (projr (analyze_crop bare_doctor failing_world empty_db
                        (sample_input ''leaf.jpg''))))) = ''Maintain regular irrigation schedule''
   \<and> ca_disease_overlay_image (report_crop_analysis
         (fst (projr (analyze_crop bare_doctor failing_world empty_db
                        (sample_input ''leaf.jpg''))))) = None
   \<and> snd (projr (analyze_crop bare_doctor failing_world empty_db (sample_input ''leaf.jpg'')))
       = empty_db"
proof -
  let ?h = "''92eb5ffee6ae2fec3ad71c777531578f''"
  have n: "imread sample_world ''notes.txt'' = None" by (simp add: sample_world_def)
  have m: "md5_of_file sample_world ''notes.txt'' = Some ?h" by (simp add: sample_world_def)
  have p: "image_path (sample_input q) = q" for q by (simp add: sample_input_def)
  from C1_always_reports [of sample_doctor sample_world empty_db "sample_input ''notes.txt''"]
  obtain report db' where
    r: "analyze_crop sample_doctor sample_world empty_db (sample_input ''notes.txt'')
        = Inr (report, db')"
    and row: "md5_of_file sample_world ''notes.txt'' = Some ?h
              \<and> sqlite_write sample_world ?h report = Inr () \<longrightarrow>
              map cache_entry (filter (\<lambda>r. image_hash r = ?h) (analysis_cache db'))
              = [(?h, ''Unknown'', ''Unknown'', 50, report_crop_analysis report,
                  report_timestamp report)]"
    and eng: "(\<forall>engine. treatment_engine sample_doctor = Some engine \<longrightarrow>
                 isl (engine (ca_crop_type (report_crop_analysis report))
                        (ca_disease (report_crop_analysis report))
                        (sample_input ''notes.txt''))) \<longrightarrow>
              ca_fertilizer_recommendation (report_crop_analysis report) = ''Standard fertilizer''"
    unfolding p using n by blast
  have w: "sqlite_write sample_world ?h report = Inr ()" by (simp add: sample_world_def)
  from row m w
  have "map cache_entry (filter (\<lambda>r. image_hash r = ?h) (analysis_cache db'))
        = [(?h, ''Unknown'', ''Unknown'', 50, report_crop_analysis report,
            report_timestamp report)]"
    by blast
  then have "map ((\<lambda>(h, crop, d, sev, rest). (h, crop, d, sev)) \<circ> cache_entry)
               (filter (\<lambda>r. image_hash r = ?h) (analysis_cache db'))
             = [(?h, ''Unknown'', ''Unknown'', 50)]"
    unfolding map_map [symmetric] by simp
  then have row1: "map (\<lambda>r. (image_hash r, row_crop_type r, row_disease r, row_severity r))
               (filter (\<lambda>r. image_hash r = ?h) (analysis_cache db'))
             = [(?h, ''Unknown'', ''Unknown'', 50)]"
    by (simp add: comp_def cache_entry_def)
  have "\<forall>engine. treatment_engine sample_doctor = Some engine \<longrightarrow>
          isl (engine (ca_crop_type (report_crop_analysis report))
                 (ca_disease (report_crop_analysis report)) (sample_input ''notes.txt''))"
    by (simp add: sample_doctor_def)
  with eng have fert: "ca_fertilizer_recommendation (report_crop_analysis report)
                       = ''Standard fertilizer''"
    by blast
  have i2: "imread failing_world ''leaf.jpg'' = Some leaf_image"
    by (simp add: failing_world_def sample_world_def)
  from C1_always_reports [of bare_doctor failing_world empty_db "sample_input ''leaf.jpg''"]
  obtain report2 db2 where
    r2: "analyze_crop bare_doctor failing_world empty_db (sample_input ''leaf.jpg'')
         = Inr (report2, db2)"
    and eng2: "(\<forall>engine. treatment_engine bare_doctor = Some engine \<longrightarrow>
                 isl (engine (ca_crop_type (report_crop_analysis report2))
                        (ca_disease (report_crop_analysis report2))
                        (sample_input ''leaf.jpg''))) \<longrightarrow>
              ca_pesticide_recommendation (report_crop_analysis report2) = ''No treatment needed''"
    and yld2: "(\<forall>predictor. yield_predictor bare_doctor = Some predictor \<longrightarrow>
                 isl (predictor (ca_crop_type (report_crop_analysis report2))
                        (sample_input ''leaf.jpg''))) \<longrightarrow>
              ca_predicted_yield (report_crop_analysis report2) = 0"
    and adv2: "isl (smart_advice failing_world (ca_disease (report_crop_analysis report2))
                 (ca_disease_severity_percent (report_crop_analysis report2))
                 (sample_input ''leaf.jpg'')) \<longrightarrow>
              ca_irrigation_advice (report_crop_analysis report2)
              = ''Maintain regular irrigation schedule''"
    and ovl2: "(\<forall>img. imread failing_world ''leaf.jpg'' = Some img \<longrightarrow>
                 isl (draw_overlay failing_world img (ca_disease (report_crop_analysis report2))
                        (ca_disease_severity_percent (report_crop_analysis report2)))) \<longrightarrow>
              ca_disease_overlay_image (report_crop_analysis report2) = None"
    and db2: "md5_of_file failing_world ''leaf.jpg'' = None
              \<or> (\<exists>h. md5_of_file failing_world ''leaf.jpg'' = Some h
                      \<and> isl (sqlite_write failing_world h report2))
              \<longrightarrow> db2 = empty_db"
    unfolding p by blast
  have pest2: "ca_pesticide_recommendation (report_crop_analysis report2) = ''No treatment needed''"
    using eng2 by (simp add: bare_doctor_def)
  have yield2: "ca_predicted_yield (report_crop_analysis report2) = 0"
    using yld2 by (simp add: bare_doctor_def)
  have advice2: "ca_irrigation_advice (report_crop_analysis report2)
                 = ''Maintain regular irrigation schedule''"
    using adv2 by (simp add: failing_world_def sample_world_def)
  have overlay2: "ca_disease_overlay_image (report_crop_analysis report2) = None"
    using ovl2 by (simp add: failing_world_def sample_world_def)
  have cache2: "db2 = empty_db"
    using db2 by (simp add: failing_world_def sample_world_def)
  show ?thesis
    using n m i2 r r2 row1 fert pest2 yield2 advice2 overlay2 cache2 by simp
qed

end
